theory Spec2Isabelle
  imports Main "HOL-Library.Word"
begin

unbundle bit_operations_syntax

section \<open>C integers\<close>

text \<open>
  \<^verbatim>\<open>int\<close> and \<^verbatim>\<open>pid_t\<close> are 32-bit two's complement values on both platforms the
  sources compile for (\<^verbatim>\<open>__APPLE__\<close>, \<^verbatim>\<open>__linux__\<close>). A C truth value is the
  \<^verbatim>\<open>int\<close> 1 or 0.
\<close>

type_synonym cint = "32 word"

definition c_bool :: "bool \<Rightarrow> cint" where
  "c_bool b = (if b then 1 else 0)"

section \<open>The wait-status macros of \<^verbatim>\<open><sys/wait.h>\<close>\<close>

text \<open>
  Modelled from the spec: the macros \<^verbatim>\<open>WIFEXITED\<close>, \<^verbatim>\<open>WEXITSTATUS\<close>,
  \<^verbatim>\<open>WIFSIGNALED\<close>, \<^verbatim>\<open>WTERMSIG\<close>, \<^verbatim>\<open>WIFSTOPPED\<close>, \<^verbatim>\<open>WSTOPSIG\<close>,
  \<^verbatim>\<open>WIFCONTINUED\<close> and \<^verbatim>\<open>WCOREDUMP\<close> that \<^verbatim>\<open>shim.h\<close> and \<^verbatim>\<open>main.c\<close> expand
  come from the system header \<^verbatim>\<open><sys/wait.h>\<close>, which is not among the sources. The
  specification (4.1, 9) only calls the status a bit-packed word whose exit code is
  masked to its valid range. \<^verbatim>\<open>shim.h\<close> is compiled for \<^verbatim>\<open>__linux__\<close> and for
  \<^verbatim>\<open>__APPLE__\<close>, so the macros are given here for both C libraries, each as its header
  writes it.

  glibc, \<^verbatim>\<open><bits/waitstatus.h>\<close>:
  \<^verbatim>\<open>
  #define __WEXITSTATUS(status)  (((status) & 0xff00) >> 8)
  #define __WTERMSIG(status)     ((status) & 0x7f)
  #define __WSTOPSIG(status)     __WEXITSTATUS(status)
  #define __WIFEXITED(status)    (__WTERMSIG(status) == 0)
  #define __WIFSIGNALED(status)  (((signed char) (((status) & 0x7f) + 1) >> 1) > 0)
  #define __WIFSTOPPED(status)   (((status) & 0xff) == 0x7f)
  #define __WIFCONTINUED(status) ((status) == __W_CONTINUED)
  #define __WCOREDUMP(status)    ((status) & __WCOREFLAG)
  #define __W_EXITCODE(ret, sig) ((ret) << 8 | (sig))
  #define __W_CONTINUED          0xffff
  #define __WCOREFLAG            0x80
  \<close>

  Darwin, \<^verbatim>\<open><sys/wait.h>\<close> (with \<^verbatim>\<open>__DARWIN_UNIX03\<close>):
  \<^verbatim>\<open>
  #define _WSTATUS(x)     (_W_INT(x) & 0177)
  #define _WSTOPPED       0177
  #define WEXITSTATUS(x)  ((_W_INT(x) >> 8) & 0x000000ff)
  #define WSTOPSIG(x)     (_W_INT(x) >> 8)
  #define WIFCONTINUED(x) (_WSTATUS(x) == _WSTOPPED && WSTOPSIG(x) == 0x13)
  #define WIFSTOPPED(x)   (_WSTATUS(x) == _WSTOPPED && WSTOPSIG(x) != 0x13)
  #define WIFEXITED(x)    (_WSTATUS(x) == 0)
  #define WIFSIGNALED(x)  (_WSTATUS(x) != _WSTOPPED && _WSTATUS(x) != 0)
  #define WTERMSIG(x)     (_WSTATUS(x))
  #define WCOREDUMP(x)    (_W_INT(x) & WCOREFLAG)
  #define WCOREFLAG       0200
  #define W_EXITCODE(ret, sig) ((ret) << 8 | (sig))
  \<close>

  \<^verbatim>\<open>>>\<close> on a negative \<^verbatim>\<open>int\<close> is the arithmetic shift (\<open>signed_drop_bit\<close>) with
  the compilers of both platforms; in glibc's \<^verbatim>\<open>__WIFSIGNALED\<close> the cast to
  \<^verbatim>\<open>signed char\<close> keeps the low byte, which is promoted to \<^verbatim>\<open>int\<close> before the
  shift.
\<close>

datatype libc = Glibc | Darwin

definition glibc_WTERMSIG :: "cint \<Rightarrow> cint" where
  "glibc_WTERMSIG status = status AND 0x7f"

definition glibc_WEXITSTATUS :: "cint \<Rightarrow> cint" where
  "glibc_WEXITSTATUS status = drop_bit 8 (status AND 0xff00)"

definition glibc_WSTOPSIG :: "cint \<Rightarrow> cint" where
  "glibc_WSTOPSIG status = glibc_WEXITSTATUS status"

definition glibc_WIFEXITED :: "cint \<Rightarrow> cint" where
  "glibc_WIFEXITED status = c_bool (glibc_WTERMSIG status = 0)"

definition glibc_WIFSIGNALED :: "cint \<Rightarrow> cint" where
  "glibc_WIFSIGNALED status =
     c_bool (0 < drop_bit 1 (sint (ucast ((status AND 0x7f) + 1) :: 8 word)))"

definition glibc_WIFSTOPPED :: "cint \<Rightarrow> cint" where
  "glibc_WIFSTOPPED status = c_bool (status AND 0xff = 0x7f)"

definition glibc_WIFCONTINUED :: "cint \<Rightarrow> cint" where
  "glibc_WIFCONTINUED status = c_bool (status = 0xffff)"

definition glibc_WCOREDUMP :: "cint \<Rightarrow> cint" where
  "glibc_WCOREDUMP status = status AND 0x80"

definition darwin_WSTATUS :: "cint \<Rightarrow> cint" where
  "darwin_WSTATUS x = x AND 0x7f"

definition darwin_WEXITSTATUS :: "cint \<Rightarrow> cint" where
  "darwin_WEXITSTATUS x = signed_drop_bit 8 x AND 0x000000ff"

definition darwin_WSTOPSIG :: "cint \<Rightarrow> cint" where
  "darwin_WSTOPSIG x = signed_drop_bit 8 x"

definition darwin_WIFCONTINUED :: "cint \<Rightarrow> cint" where
  "darwin_WIFCONTINUED x = c_bool (darwin_WSTATUS x = 0x7f \<and> darwin_WSTOPSIG x = 0x13)"

definition darwin_WIFSTOPPED :: "cint \<Rightarrow> cint" where
  "darwin_WIFSTOPPED x = c_bool (darwin_WSTATUS x = 0x7f \<and> darwin_WSTOPSIG x \<noteq> 0x13)"

definition darwin_WIFEXITED :: "cint \<Rightarrow> cint" where
  "darwin_WIFEXITED x = c_bool (darwin_WSTATUS x = 0)"

definition darwin_WIFSIGNALED :: "cint \<Rightarrow> cint" where
  "darwin_WIFSIGNALED x = c_bool (darwin_WSTATUS x \<noteq> 0x7f \<and> darwin_WSTATUS x \<noteq> 0)"

definition darwin_WTERMSIG :: "cint \<Rightarrow> cint" where
  "darwin_WTERMSIG x = darwin_WSTATUS x"

definition darwin_WCOREDUMP :: "cint \<Rightarrow> cint" where
  "darwin_WCOREDUMP x = x AND 0x80"

text \<open>\<^verbatim>\<open>W_EXITCODE(ret, sig)\<close>, the same on both: the status word of a child that
  terminated with exit code \<open>ret\<close> (\<open>sig = 0\<close>) or by signal \<open>sig\<close>.\<close>

definition W_EXITCODE :: "cint \<Rightarrow> cint \<Rightarrow> cint" where
  "W_EXITCODE ret sig = push_bit 8 ret OR sig"

text \<open>The macros by platform.\<close>

fun WIFEXITED :: "libc \<Rightarrow> cint \<Rightarrow> cint" where
  "WIFEXITED Glibc status = glibc_WIFEXITED status"
| "WIFEXITED Darwin status = darwin_WIFEXITED status"

fun WEXITSTATUS :: "libc \<Rightarrow> cint \<Rightarrow> cint" where
  "WEXITSTATUS Glibc status = glibc_WEXITSTATUS status"
| "WEXITSTATUS Darwin status = darwin_WEXITSTATUS status"

fun WIFSIGNALED :: "libc \<Rightarrow> cint \<Rightarrow> cint" where
  "WIFSIGNALED Glibc status = glibc_WIFSIGNALED status"
| "WIFSIGNALED Darwin status = darwin_WIFSIGNALED status"

fun WTERMSIG :: "libc \<Rightarrow> cint \<Rightarrow> cint" where
  "WTERMSIG Glibc status = glibc_WTERMSIG status"
| "WTERMSIG Darwin status = darwin_WTERMSIG status"

fun WIFSTOPPED :: "libc \<Rightarrow> cint \<Rightarrow> cint" where
  "WIFSTOPPED Glibc status = glibc_WIFSTOPPED status"
| "WIFSTOPPED Darwin status = darwin_WIFSTOPPED status"

fun WSTOPSIG :: "libc \<Rightarrow> cint \<Rightarrow> cint" where
  "WSTOPSIG Glibc status = glibc_WSTOPSIG status"
| "WSTOPSIG Darwin status = darwin_WSTOPSIG status"

fun WIFCONTINUED :: "libc \<Rightarrow> cint \<Rightarrow> cint" where
  "WIFCONTINUED Glibc status = glibc_WIFCONTINUED status"
| "WIFCONTINUED Darwin status = darwin_WIFCONTINUED status"

fun WCOREDUMP :: "libc \<Rightarrow> cint \<Rightarrow> cint" where
  "WCOREDUMP Glibc status = glibc_WCOREDUMP status"
| "WCOREDUMP Darwin status = darwin_WCOREDUMP status"

section \<open>\<^verbatim>\<open>shim.h\<close>: the wrappers around the macros\<close>

text \<open>
  \<^verbatim>\<open>static inline int swift_WIFEXITED(int status) { return WIFEXITED(status); }\<close>
  and its seven siblings; the first argument is the C library whose header the shim was
  compiled against.
\<close>

definition swift_WIFEXITED :: "libc \<Rightarrow> cint \<Rightarrow> cint" where
  "swift_WIFEXITED l status = WIFEXITED l status"

definition swift_WEXITSTATUS :: "libc \<Rightarrow> cint \<Rightarrow> cint" where
  "swift_WEXITSTATUS l status = WEXITSTATUS l status"

definition swift_WIFSIGNALED :: "libc \<Rightarrow> cint \<Rightarrow> cint" where
  "swift_WIFSIGNALED l status = WIFSIGNALED l status"

definition swift_WTERMSIG :: "libc \<Rightarrow> cint \<Rightarrow> cint" where
  "swift_WTERMSIG l status = WTERMSIG l status"

definition swift_WIFSTOPPED :: "libc \<Rightarrow> cint \<Rightarrow> cint" where
  "swift_WIFSTOPPED l status = WIFSTOPPED l status"

definition swift_WSTOPSIG :: "libc \<Rightarrow> cint \<Rightarrow> cint" where
  "swift_WSTOPSIG l status = WSTOPSIG l status"

definition swift_WIFCONTINUED :: "libc \<Rightarrow> cint \<Rightarrow> cint" where
  "swift_WIFCONTINUED l status = WIFCONTINUED l status"

definition swift_WCOREDUMP :: "libc \<Rightarrow> cint \<Rightarrow> cint" where
  "swift_WCOREDUMP l status = WCOREDUMP l status"

text \<open>How many of the four predicates answer nonzero on a status.\<close>

definition outcomes_holding :: "libc \<Rightarrow> cint \<Rightarrow> nat" where
  "outcomes_holding l status =
     length (filter (\<lambda>p. p l status \<noteq> 0)
       [swift_WIFEXITED, swift_WIFSIGNALED, swift_WIFSTOPPED, swift_WIFCONTINUED])"

section \<open>The C library: \<^verbatim>\<open>atoi\<close> and \<^verbatim>\<open>printf("%d")\<close>\<close>

text \<open>
  The C library is not among the sources either. \<^verbatim>\<open>atoi(s)\<close> is
  \<^verbatim>\<open>(int) strtol(s, NULL, 10)\<close> in glibc and in Darwin's libc: white space is skipped, an
  optional sign is read, then the longest run of decimal digits; no digits give 0; a
  value outside \<^verbatim>\<open>long\<close> (64 bits) is clamped to \<^verbatim>\<open>LONG_MIN\<close> or \<^verbatim>\<open>LONG_MAX\<close>, and
  the conversion to \<^verbatim>\<open>int\<close> keeps the low 32 bits.
\<close>

definition isspace :: "char \<Rightarrow> bool" where
  "isspace c = (c \<in> set [CHR '' '', CHR 0x09, CHR 0x0A, CHR 0x0B, CHR 0x0C, CHR 0x0D])"

definition isdigit :: "char \<Rightarrow> bool" where
  "isdigit c = (48 \<le> (of_char c :: nat) \<and> (of_char c :: nat) \<le> 57)"

text \<open>The digits of the subject sequence, accumulated most significant first.\<close>

fun strtol_digits :: "int \<Rightarrow> string \<Rightarrow> int" where
  "strtol_digits acc [] = acc"
| "strtol_digits acc (c # cs) =
     (if isdigit c then strtol_digits (acc * 10 + (of_char c - 48)) cs else acc)"

definition clamp_long :: "int \<Rightarrow> int" where
  "clamp_long v = max (- (2 ^ 63)) (min (2 ^ 63 - 1) v)"

definition strtol10 :: "string \<Rightarrow> int" where
  "strtol10 s =
     (case dropWhile isspace s of
        [] \<Rightarrow> 0
      | c # cs \<Rightarrow>
          if c = CHR ''-'' then clamp_long (- strtol_digits 0 cs)
          else if c = CHR ''+'' then clamp_long (strtol_digits 0 cs)
          else clamp_long (strtol_digits 0 (c # cs)))"

definition atoi :: "string \<Rightarrow> cint" where
  "atoi s = word_of_int (strtol10 s)"

text \<open>\<^verbatim>\<open>%d\<close>: the decimal digits of a signed \<^verbatim>\<open>int\<close>, with \<^verbatim>\<open>-\<close> before a negative
  value.\<close>

fun dec_digits :: "nat \<Rightarrow> string" where
  "dec_digits n =
     (if n < 10 then [char_of (48 + n)]
      else dec_digits (n div 10) @ [char_of (48 + n mod 10)])"

declare dec_digits.simps [simp del]

definition show_int :: "int \<Rightarrow> string" where
  "show_int i = (if i < 0 then CHR ''-'' # dec_digits (nat (- i)) else dec_digits (nat i))"

definition fmt_d :: "cint \<Rightarrow> string" where
  "fmt_d v = show_int (sint v)"

definition newline :: "char" where
  "newline = CHR 0x0A"

section \<open>The operating system, as \<^verbatim>\<open>main.c\<close> calls it\<close>

text \<open>
  The system calls are parameters of the program: each takes the state of the world
  (of type \<open>'k\<close>) and returns its C result with the state after the call;
  \<open>os_errno\<close> reads \<^verbatim>\<open>errno\<close> in a state. \<^verbatim>\<open>waitpid\<close> returns its result together
  with what it stored through the status pointer.
\<close>

record 'k os =
  os_getpid :: "'k \<Rightarrow> cint \<times> 'k"
  os_getppid :: "'k \<Rightarrow> cint \<times> 'k"
  os_getpgid :: "cint \<Rightarrow> 'k \<Rightarrow> cint \<times> 'k"
  os_getsid :: "cint \<Rightarrow> 'k \<Rightarrow> cint \<times> 'k"
  os_setsid :: "'k \<Rightarrow> cint \<times> 'k"
  os_setpgid :: "cint \<Rightarrow> cint \<Rightarrow> 'k \<Rightarrow> cint \<times> 'k"
  os_fork :: "'k \<Rightarrow> cint \<times> 'k"
  os_waitpid :: "cint \<Rightarrow> cint \<Rightarrow> 'k \<Rightarrow> (cint \<times> cint) \<times> 'k"
  os_raise :: "cint \<Rightarrow> 'k \<Rightarrow> cint \<times> 'k"
  os_errno :: "'k \<Rightarrow> cint"

text \<open>\<^verbatim>\<open>EPERM\<close> is 1 on both platforms; \<^verbatim>\<open>SIGSTOP\<close> is 19 on Linux and 17 on
  Darwin.\<close>

definition EPERM :: cint where
  "EPERM = 1"

fun SIGSTOP :: "libc \<Rightarrow> cint" where
  "SIGSTOP Glibc = 19"
| "SIGSTOP Darwin = 17"

text \<open>The process as the program sees it: the world behind the system calls, and what
  has been written to standard output and standard error (every \<^verbatim>\<open>printf\<close> of the
  program is followed by \<^verbatim>\<open>fflush(stdout)\<close>; \<^verbatim>\<open>stderr\<close> is unbuffered).\<close>

record 'k proc =
  kernel :: 'k
  stdout :: string
  stderr :: string

section \<open>\<^verbatim>\<open>main.c\<close>\<close>

text \<open>
  \<^verbatim>\<open>
  static void print_status(const char *status, int exit_code) {
      pid_t pid = getpid();
      pid_t ppid = getppid();
      pid_t pgid = getpgid(0);
      pid_t sid = getsid(0);
      printf("%s pid=%d ppid=%d pgid=%d sid=%d exit=%d\n",
             status, pid, ppid, pgid, sid, exit_code);
      fflush(stdout);
  }
  \<close>
\<close>

definition status_line :: "string \<Rightarrow> cint \<Rightarrow> cint \<Rightarrow> cint \<Rightarrow> cint \<Rightarrow> cint \<Rightarrow> string" where
  "status_line status pid ppid pgid sid exit_code =
     status @ '' pid='' @ fmt_d pid @ '' ppid='' @ fmt_d ppid @ '' pgid='' @ fmt_d pgid
       @ '' sid='' @ fmt_d sid @ '' exit='' @ fmt_d exit_code @ [newline]"

definition print_status :: "'k os \<Rightarrow> string \<Rightarrow> cint \<Rightarrow> 'k proc \<Rightarrow> 'k proc" where
  "print_status os status exit_code p =
     (let (pid, k1) = os_getpid os (kernel p);
          (ppid, k2) = os_getppid os k1;
          (pgid, k3) = os_getpgid os 0 k2;
          (sid, k4) = os_getsid os 0 k3
      in p\<lparr>kernel := k4,
           stdout := stdout p @ status_line status pid ppid pgid sid exit_code\<rparr>)"

text \<open>
  \<^verbatim>\<open>
  static void print_error(int err, const char *msg) {
      printf("ERR errno=%d msg=%s\n", err, msg);
      fflush(stdout);
  }
  \<close>
\<close>

definition error_line :: "cint \<Rightarrow> string \<Rightarrow> string" where
  "error_line err msg = ''ERR errno='' @ fmt_d err @ '' msg='' @ msg @ [newline]"

definition print_error :: "cint \<Rightarrow> string \<Rightarrow> 'k proc \<Rightarrow> 'k proc" where
  "print_error err msg p = p\<lparr>stdout := stdout p @ error_line err msg\<rparr>"

definition printf_out :: "string \<Rightarrow> 'k proc \<Rightarrow> 'k proc" where
  "printf_out s p = p\<lparr>stdout := stdout p @ s\<rparr>"

definition fprintf_stderr :: "string \<Rightarrow> 'k proc \<Rightarrow> 'k proc" where
  "fprintf_stderr s p = p\<lparr>stderr := stderr p @ s\<rparr>"

text \<open>The usage text of \<^verbatim>\<open>main\<close> (nine \<^verbatim>\<open>fprintf(stderr, ...)\<close> calls).\<close>

definition usage :: string where
  "usage =
     ''Usage: posix-test-helper <command> [args...]'' @ [newline] @
     ''Commands:'' @ [newline] @
     ''  exit <code>           Exit with specified code'' @ [newline] @
     ''  stop-exit <code>      SIGSTOP, then exit when continued'' @ [newline] @
     ''  verify-parent <ppid>  Verify parent PID'' @ [newline] @
     ''  create-session        Create new session (setsid)'' @ [newline] @
     ''  double-setsid         setsid twice, verify EPERM'' @ [newline] @
     ''  become-group-leader   setpgid(0,0)'' @ [newline] @
     ''  setpgid-explicit      setpgid(pid, pid)'' @ [newline] @
     ''  fork-exit <code>      Fork child that exits'' @ [newline]"

text \<open>\<^verbatim>\<open>int code = argc >= 3 ? atoi(argv[2]) : 0;\<close>\<close>

definition code_arg :: "string list \<Rightarrow> cint" where
  "code_arg argv = (if 3 \<le> length argv then atoi (argv ! 2) else 0)"

text \<open>The blocks of \<^verbatim>\<open>main\<close>, one per command, in the order of the source. Each takes
  the process and returns the exit code (the value \<^verbatim>\<open>main\<close> returns, or the argument
  of \<^verbatim>\<open>_exit\<close>) with the process at that moment.\<close>

definition cmd_exit :: "'k os \<Rightarrow> string list \<Rightarrow> 'k proc \<Rightarrow> cint \<times> 'k proc" where
  "cmd_exit os argv p =
     (let code = code_arg argv in (code, print_status os ''OK'' code p))"

definition cmd_stop_exit :: "'k os \<Rightarrow> libc \<Rightarrow> string list \<Rightarrow> 'k proc \<Rightarrow> cint \<times> 'k proc" where
  "cmd_stop_exit os l argv p =
     (let code = code_arg argv;
          (r, k1) = os_raise os (SIGSTOP l) (kernel p)
      in (code, print_status os ''OK'' code (p\<lparr>kernel := k1\<rparr>)))"

definition cmd_verify_parent :: "'k os \<Rightarrow> string list \<Rightarrow> 'k proc \<Rightarrow> cint \<times> 'k proc" where
  "cmd_verify_parent os argv p =
     (if length argv < 3 then
        (1, fprintf_stderr (''verify-parent requires <ppid> argument'' @ [newline]) p)
      else
        let expected = atoi (argv ! 2);
            (actual, k1) = os_getppid os (kernel p);
            ok = (actual = expected);
            p1 = p\<lparr>kernel := k1\<rparr>
        in if ok then (0, print_status os ''OK'' 0 p1)
           else (1, printf_out (''ERR errno=0 msg=ppid_mismatch expected='' @ fmt_d expected
                                  @ '' actual='' @ fmt_d actual @ [newline]) p1))"

definition cmd_create_session :: "'k os \<Rightarrow> 'k proc \<Rightarrow> cint \<times> 'k proc" where
  "cmd_create_session os p =
     (let (sid, k1) = os_setsid os (kernel p);
          p1 = p\<lparr>kernel := k1\<rparr>
      in if 0 < sint sid then (0, print_status os ''OK'' 0 p1)
         else (1, print_error (os_errno os k1) ''setsid_failed'' p1))"

definition cmd_double_setsid :: "'k os \<Rightarrow> 'k proc \<Rightarrow> cint \<times> 'k proc" where
  "cmd_double_setsid os p =
     (let (first, k1) = os_setsid os (kernel p) in
      if sint first \<le> 0 then
        (1, print_error (os_errno os k1) ''first_setsid_failed'' (p\<lparr>kernel := k1\<rparr>))
      else
        let (second, k2) = os_setsid os k1;
            second_failed_eperm = (sint second < 0 \<and> os_errno os k2 = EPERM);
            p2 = p\<lparr>kernel := k2\<rparr>
        in if second_failed_eperm then (0, print_status os ''OK'' 0 p2)
           else (1, print_error (os_errno os k2) ''second_setsid_should_fail_eperm'' p2))"

definition cmd_become_group_leader :: "'k os \<Rightarrow> 'k proc \<Rightarrow> cint \<times> 'k proc" where
  "cmd_become_group_leader os p =
     (let (r, k1) = os_setpgid os 0 0 (kernel p) in
      if r \<noteq> 0 then
        (1, print_error (os_errno os k1) ''setpgid_failed'' (p\<lparr>kernel := k1\<rparr>))
      else
        let (pid, k2) = os_getpid os k1;
            (pgid, k3) = os_getpgid os 0 k2;
            ok = (pgid = pid);
            p3 = p\<lparr>kernel := k3\<rparr>
        in if ok then (0, print_status os ''OK'' 0 p3)
           else (1, printf_out (''ERR errno=0 msg=not_group_leader pid='' @ fmt_d pid
                                  @ '' pgid='' @ fmt_d pgid @ [newline]) p3))"

definition cmd_setpgid_explicit :: "'k os \<Rightarrow> 'k proc \<Rightarrow> cint \<times> 'k proc" where
  "cmd_setpgid_explicit os p =
     (let (pid, k1) = os_getpid os (kernel p);
          (r, k2) = os_setpgid os pid pid k1 in
      if r \<noteq> 0 then
        (1, print_error (os_errno os k2) ''setpgid_explicit_failed'' (p\<lparr>kernel := k2\<rparr>))
      else
        let (pgid, k3) = os_getpgid os pid k2;
            ok = (pgid = pid);
            p3 = p\<lparr>kernel := k3\<rparr>
        in if ok then (0, print_status os ''OK'' 0 p3)
           else (1, printf_out (''ERR errno=0 msg=pgid_not_set pid='' @ fmt_d pid
                                  @ '' pgid='' @ fmt_d pgid @ [newline]) p3))"

text \<open>In \<^verbatim>\<open>fork-exit\<close> the result of \<^verbatim>\<open>fork\<close> tells the two processes apart: with 0
  the function is the run of the child, which leaves through \<^verbatim>\<open>_exit(code)\<close>.\<close>

definition cmd_fork_exit :: "'k os \<Rightarrow> libc \<Rightarrow> string list \<Rightarrow> 'k proc \<Rightarrow> cint \<times> 'k proc" where
  "cmd_fork_exit os l argv p =
     (let code = code_arg argv;
          (child, k1) = os_fork os (kernel p) in
      if sint child < 0 then
        (1, print_error (os_errno os k1) ''fork_failed'' (p\<lparr>kernel := k1\<rparr>))
      else if child = 0 then
        (code, p\<lparr>kernel := k1\<rparr>)
      else
        let ((waited, status), k2) = os_waitpid os child 0 k1 in
        if waited \<noteq> child then
          (1, print_error (os_errno os k2) ''waitpid_failed'' (p\<lparr>kernel := k2\<rparr>))
        else
          let child_exit = (if WIFEXITED l status \<noteq> 0 then WEXITSTATUS l status else - 1);
              (pid, k3) = os_getpid os k2
          in (0, printf_out (''OK pid='' @ fmt_d pid @ '' child='' @ fmt_d child
                               @ '' child_exit='' @ fmt_d child_exit @ [newline])
                   (p\<lparr>kernel := k3\<rparr>)))"

text \<open>\<^verbatim>\<open>int main(int argc, char *argv[])\<close>, with \<open>argc = length argv\<close>.\<close>

definition main :: "'k os \<Rightarrow> libc \<Rightarrow> string list \<Rightarrow> 'k proc \<Rightarrow> cint \<times> 'k proc" where
  "main os l argv p =
     (if length argv < 2 then (1, fprintf_stderr usage p)
      else
        let cmd = argv ! 1 in
        if cmd = ''exit'' then cmd_exit os argv p
        else if cmd = ''stop-exit'' then cmd_stop_exit os l argv p
        else if cmd = ''verify-parent'' then cmd_verify_parent os argv p
        else if cmd = ''create-session'' then cmd_create_session os p
        else if cmd = ''double-setsid'' then cmd_double_setsid os p
        else if cmd = ''become-group-leader'' then cmd_become_group_leader os p
        else if cmd = ''setpgid-explicit'' then cmd_setpgid_explicit os p
        else if cmd = ''fork-exit'' then cmd_fork_exit os l argv p
        else (1, fprintf_stderr (''Unknown command: '' @ cmd @ [newline]) p))"

section \<open>The line protocol\<close>

text \<open>
  The grammar of the specification (section 6): a line is a status word followed by
  \<open>key=value\<close> pairs, separated by single spaces.
  \<^verbatim>\<open>
  OK pid=<int> ppid=<int> pgid=<int> sid=<int> exit=<int>
  ERR errno=<int> msg=<token>[ <key>=<value>]*
  \<close>
  \<open>field key line\<close> is the value of \<open>key\<close> on a line (without its newline), if the
  line has that key.
\<close>

fun split_sp :: "string \<Rightarrow> string list" where
  "split_sp [] = [[]]"
| "split_sp (c # cs) =
     (if c = CHR '' '' then [] # split_sp cs
      else (case split_sp cs of [] \<Rightarrow> [[c]] | w # ws \<Rightarrow> (c # w) # ws))"

definition key_value :: "string \<Rightarrow> string \<times> string" where
  "key_value tok =
     (takeWhile (\<lambda>c. c \<noteq> CHR ''='') tok, drop 1 (dropWhile (\<lambda>c. c \<noteq> CHR ''='') tok))"

definition line_fields :: "string \<Rightarrow> (string \<times> string) list" where
  "line_fields line = map key_value (tl (split_sp line))"

definition field :: "string \<Rightarrow> string \<Rightarrow> string option" where
  "field key line = map_of (line_fields line) key"

text \<open>Standard output holds exactly one line, and it is an \<open>OK\<close> or an \<open>ERR\<close> line.\<close>

definition one_protocol_line :: "string \<Rightarrow> bool" where
  "one_protocol_line out =
     (out \<noteq> [] \<and> last out = newline \<and> count_list out newline = 1 \<and>
      (take 3 out = ''OK '' \<or> take 4 out = ''ERR ''))"

section \<open>The process-group and session rules of the kernel\<close>

text \<open>
  Modelled from the spec: the kernel behind the system calls is not among the sources.
  This is the calling process alone under the rules of the specification (sections 3 and
  4.3): creating a session fails with the "already a process-group leader" condition
  (\<^verbatim>\<open>EPERM\<close>) when the process is a process-group leader, and otherwise makes the
  process the leader of a new session and of a new process group; making the process its
  own group leader fails with \<^verbatim>\<open>EPERM\<close> when it is a session leader; the queries
  always succeed for the process itself. What \<^verbatim>\<open>fork\<close> and \<^verbatim>\<open>waitpid\<close> return
  depends on the rest of the system and is given with the world (\<open>Inl\<close> an
  \<^verbatim>\<open>errno\<close>, \<open>Inr\<close> the result); \<^verbatim>\<open>raise(SIGSTOP)\<close> returns 0 once the process has
  been continued.
\<close>

record world =
  w_pid :: cint
  w_ppid :: cint
  w_pgid :: cint
  w_sid :: cint
  w_errno :: cint
  w_fork :: "cint + cint"
  w_wait :: "cint + cint \<times> cint"

definition ESRCH :: cint where
  "ESRCH = 3"

definition posix_getpid :: "world \<Rightarrow> cint \<times> world" where
  "posix_getpid k = (w_pid k, k)"

definition posix_getppid :: "world \<Rightarrow> cint \<times> world" where
  "posix_getppid k = (w_ppid k, k)"

definition posix_getpgid :: "cint \<Rightarrow> world \<Rightarrow> cint \<times> world" where
  "posix_getpgid p k =
     (if p = 0 \<or> p = w_pid k then (w_pgid k, k) else (- 1, k\<lparr>w_errno := ESRCH\<rparr>))"

definition posix_getsid :: "cint \<Rightarrow> world \<Rightarrow> cint \<times> world" where
  "posix_getsid p k =
     (if p = 0 \<or> p = w_pid k then (w_sid k, k) else (- 1, k\<lparr>w_errno := ESRCH\<rparr>))"

definition posix_setsid :: "world \<Rightarrow> cint \<times> world" where
  "posix_setsid k =
     (if w_pgid k = w_pid k then (- 1, k\<lparr>w_errno := EPERM\<rparr>)
      else (w_pid k, k\<lparr>w_pgid := w_pid k, w_sid := w_pid k\<rparr>))"

definition posix_setpgid :: "cint \<Rightarrow> cint \<Rightarrow> world \<Rightarrow> cint \<times> world" where
  "posix_setpgid p g k =
     (let p' = (if p = 0 then w_pid k else p);
          g' = (if g = 0 then p' else g)
      in if p' \<noteq> w_pid k then (- 1, k\<lparr>w_errno := ESRCH\<rparr>)
         else if w_sid k = w_pid k \<or> g' \<noteq> w_pid k then (- 1, k\<lparr>w_errno := EPERM\<rparr>)
         else (0, k\<lparr>w_pgid := w_pid k\<rparr>))"

definition posix_fork :: "world \<Rightarrow> cint \<times> world" where
  "posix_fork k =
     (case w_fork k of Inl e \<Rightarrow> (- 1, k\<lparr>w_errno := e\<rparr>) | Inr child \<Rightarrow> (child, k))"

definition posix_waitpid :: "cint \<Rightarrow> cint \<Rightarrow> world \<Rightarrow> (cint \<times> cint) \<times> world" where
  "posix_waitpid p options k =
     (case w_wait k of
        Inl e \<Rightarrow> ((- 1, 0), k\<lparr>w_errno := e\<rparr>)
      | Inr (waited, status) \<Rightarrow> ((waited, status), k))"

definition posix_raise :: "cint \<Rightarrow> world \<Rightarrow> cint \<times> world" where
  "posix_raise sig k = (0, k)"

definition posix :: "world os" where
  "posix =
     \<lparr>os_getpid = posix_getpid, os_getppid = posix_getppid, os_getpgid = posix_getpgid,
      os_getsid = posix_getsid, os_setsid = posix_setsid, os_setpgid = posix_setpgid,
      os_fork = posix_fork, os_waitpid = posix_waitpid, os_raise = posix_raise,
      os_errno = w_errno\<rparr>"

text \<open>A process started by a shell or by \<^verbatim>\<open>posix_spawn\<close>: pid 100, child of 50, in its
  parent's process group and session; \<^verbatim>\<open>fork\<close> gives child 101, and \<^verbatim>\<open>waitpid\<close>
  the pid and status given.\<close>

definition fresh_world :: "cint \<Rightarrow> cint \<Rightarrow> world" where
  "fresh_world waited status =
     \<lparr>w_pid = 100, w_ppid = 50, w_pgid = 50, w_sid = 50, w_errno = 0,
      w_fork = Inr 101, w_wait = Inr (waited, status)\<rparr>"

definition start :: "'k \<Rightarrow> 'k proc" where
  "start k = \<lparr>kernel = k, stdout = [], stderr = []\<rparr>"

text \<open>Standard output holds exactly one line, an \<open>OK\<close> line whose \<open>exit\<close> field
  is the number \<open>e\<close>.\<close>

definition ok_report :: "string \<Rightarrow> cint \<Rightarrow> bool" where
  "ok_report out e =
     (one_protocol_line out \<and> take 3 out = ''OK '' \<and>
      field ''exit'' (butlast out) = Some (fmt_d e))"

text \<open>Standard output holds exactly one line, an \<open>ERR\<close> line whose \<open>errno\<close> field
  is the number \<open>e\<close>.\<close>

definition err_report :: "string \<Rightarrow> cint \<Rightarrow> bool" where
  "err_report out e =
     (one_protocol_line out \<and> take 4 out = ''ERR '' \<and>
      field ''errno'' (butlast out) = Some (fmt_d e))"

text \<open>A run of the helper from a process that has written nothing yet: the value
  \<^verbatim>\<open>main\<close> returns (or passes to \<^verbatim>\<open>_exit\<close>), what it wrote to standard output, and
  what it wrote to standard error.\<close>

definition returned :: "'k os \<Rightarrow> libc \<Rightarrow> string list \<Rightarrow> 'k \<Rightarrow> cint" where
  "returned os l argv k = fst (main os l argv (start k))"

definition printed :: "'k os \<Rightarrow> libc \<Rightarrow> string list \<Rightarrow> 'k \<Rightarrow> string" where
  "printed os l argv k = stdout (snd (main os l argv (start k)))"

definition complaints :: "'k os \<Rightarrow> libc \<Rightarrow> string list \<Rightarrow> 'k \<Rightarrow> string" where
  "complaints os l argv k = stderr (snd (main os l argv (start k)))"

text \<open>
  Modelled from the spec: what the kernel makes of the value a process ends with is not
  among the sources. The exit status of a process, the one a waiting parent is handed,
  is an exit code from 0 to 255 (sections 3 and 8 of the specification): the low 8 bits
  of the value returned from \<^verbatim>\<open>main\<close> or passed to \<^verbatim>\<open>_exit\<close>
  (\<^verbatim>\<open>status & 0377\<close>).
\<close>

definition exit_status :: "'k os \<Rightarrow> libc \<Rightarrow> string list \<Rightarrow> 'k \<Rightarrow> cint" where
  "exit_status os l argv k = returned os l argv k AND 0xff"

text \<open>The helper ends with \<open>c\<close>: \<^verbatim>\<open>main\<close> returns \<open>c\<close> and the exit status of the
  process is \<open>c\<close>.\<close>

definition exits :: "'k os \<Rightarrow> libc \<Rightarrow> string list \<Rightarrow> 'k \<Rightarrow> cint \<Rightarrow> bool" where
  "exits os l argv k c = (returned os l argv k = c \<and> exit_status os l argv k = c)"

text \<open>The commands \<^verbatim>\<open>main\<close> recognises.\<close>

definition commands :: "string list" where
  "commands =
     [''exit'', ''stop-exit'', ''verify-parent'', ''create-session'', ''double-setsid'',
      ''become-group-leader'', ''setpgid-explicit'', ''fork-exit'']"

section \<open>The status word as an integer\<close>

lemma and_mask_uint:
  fixes s :: cint
  assumes n: "n < 32"
  shows "uint (s AND mask n) = uint s mod 2 ^ n"
proof -
  have "uint s mod 2 ^ n < 2 ^ n" by simp
  also have "(2::int) ^ n < 2 ^ 32"
    using n by (simp only: power_strict_increasing_iff one_less_numeral_iff semiring_norm)
  finally have "take_bit 32 (uint s mod 2 ^ n) = uint s mod 2 ^ n"
    by (simp add: take_bit_int_eq_self)
  then show ?thesis
    by (simp add: and_mask_mod_2p uint_word_of_int_eq)
qed

lemma uint_low7: "uint ((s::cint) AND 0x7f) = uint s mod 128"
  using and_mask_uint [of 7 s] by (simp add: mask_eq_exp_minus_1)

lemma uint_low8: "uint ((s::cint) AND 0xff) = uint s mod 256"
  using and_mask_uint [of 8 s] by (simp add: mask_eq_exp_minus_1)

lemma low7_eq_0: "(s::cint) AND 0x7f = 0 \<longleftrightarrow> uint s mod 128 = 0"
  by (simp only: word_uint_eq_iff uint_low7 uint_0_eq)

lemma low8_eq_7f: "(s::cint) AND 0xff = 0x7f \<longleftrightarrow> uint s mod 256 = 127"
  by (simp add: word_uint_eq_iff uint_low8)

lemma low8_eq_ff: "(s::cint) AND 0xff = 0xff \<longleftrightarrow> uint s mod 256 = 255"
  by (simp add: word_uint_eq_iff uint_low8)

lemma eq_ffff: "(s::cint) = 0xffff \<longleftrightarrow> uint s = 65535"
  by (simp add: word_uint_eq_iff)

lemma sint_small:
  fixes w :: cint
  assumes "uint w \<le> 255"
  shows "sint w = uint w"
proof -
  from assms have "uint w < 2 ^ 31" by simp
  moreover have "- (2 ^ 31) \<le> uint w"
    by (rule order_trans [of _ 0]) simp_all
  ultimately have "signed_take_bit 31 (uint w) = uint w"
    by (rule signed_take_bit_int_eq_self [rotated])
  then show ?thesis by (simp add: sint_uint)
qed

lemma mod_256_127: "(u::int) mod 256 = 127 \<Longrightarrow> u mod 128 = 127"
proof -
  assume a: "u mod 256 = 127"
  have "u mod 128 = (u mod 256) mod 128" by (simp add: mod_mod_cancel)
  then show ?thesis using a by simp
qed

lemma mod_256_255: "(u::int) mod 256 = 255 \<Longrightarrow> u mod 128 = 127"
proof -
  assume a: "u mod 256 = 255"
  have "u mod 128 = (u mod 256) mod 128" by (simp add: mod_mod_cancel)
  then show ?thesis using a by simp
qed

lemma mod_128_127: "(u::int) mod 128 = 127 \<Longrightarrow> u mod 256 = 127 \<or> u mod 256 = 255"
proof -
  assume a: "u mod 128 = 127"
  define v where "v = u mod 256"
  have v: "0 \<le> v" "v < 256" by (simp_all add: v_def)
  have "v mod 128 = 127" using a by (simp add: v_def mod_mod_cancel)
  then show ?thesis unfolding v_def [symmetric] using v by presburger
qed

subsection \<open>glibc's predicates\<close>

lemma signed_char_succ:
  "0 \<le> t \<Longrightarrow> t < 128 \<Longrightarrow>
   signed_take_bit 7 (t + 1 :: int) = (if t = 127 then - 128 else t + 1)"
  by (auto simp: signed_take_bit_int_eq_self)

lemma glibc_signaled_test:
  "0 < drop_bit 1 (sint (ucast (((s::cint) AND 0x7f) + 1) :: 8 word)) \<longleftrightarrow>
   uint s mod 128 \<noteq> 0 \<and> uint s mod 128 \<noteq> 127"
proof -
  define t where "t = uint s mod 128"
  have r: "0 \<le> t" "t < 128" by (simp_all add: t_def)
  have "uint (s AND 0x7f) = t" by (simp add: uint_low7 t_def)
  then have "s AND 0x7f = word_of_int t" by (metis word_of_int_uint)
  then have "(s AND 0x7f) + 1 = word_of_int (t + 1)" by simp
  moreover have "is_down (ucast :: cint \<Rightarrow> 8 word)" by (simp add: is_down)
  ultimately have "(ucast ((s AND 0x7f) + 1) :: 8 word) = word_of_int (t + 1)"
    by (simp only: ucast_down_wi)
  then have "sint (ucast ((s AND 0x7f) + 1) :: 8 word) = sint (word_of_int (t + 1) :: 8 word)"
    by (simp only:)
  also have "\<dots> = signed_take_bit 7 (t + 1)"
    using sint_sbintrunc' [where 'a = 8, of "t + 1"] by simp
  also have "\<dots> = (if t = 127 then - 128 else t + 1)"
    using r by (rule signed_char_succ)
  finally have "sint (ucast ((s AND 0x7f) + 1) :: 8 word) = (if t = 127 then - 128 else t + 1)" .
  then have "0 < drop_bit 1 (sint (ucast ((s AND 0x7f) + 1) :: 8 word)) \<longleftrightarrow> t \<noteq> 0 \<and> t \<noteq> 127"
    using r by (simp add: drop_bit_eq_div) presburger
  then show ?thesis unfolding t_def .
qed

lemma glibc_WIFSIGNALED_iff:
  "glibc_WIFSIGNALED s \<noteq> 0 \<longleftrightarrow> uint s mod 128 \<noteq> 0 \<and> uint s mod 128 \<noteq> 127"
  unfolding glibc_WIFSIGNALED_def c_bool_def glibc_signaled_test by simp

lemma glibc_WIFEXITED_iff: "glibc_WIFEXITED s \<noteq> 0 \<longleftrightarrow> uint s mod 128 = 0"
  unfolding glibc_WIFEXITED_def glibc_WTERMSIG_def c_bool_def low7_eq_0 by simp

lemma glibc_WIFSTOPPED_iff: "glibc_WIFSTOPPED s \<noteq> 0 \<longleftrightarrow> uint s mod 256 = 127"
  unfolding glibc_WIFSTOPPED_def c_bool_def low8_eq_7f by simp

lemma glibc_WIFCONTINUED_iff: "glibc_WIFCONTINUED s \<noteq> 0 \<longleftrightarrow> uint s = 65535"
  unfolding glibc_WIFCONTINUED_def c_bool_def eq_ffff by simp

lemma glibc_outcomes_holding:
  "outcomes_holding Glibc s = (if s AND 0xff = 0xff \<and> s \<noteq> 0xffff then 0 else 1)"
proof -
  define u where "u = uint s"
  have c: "u = 65535 \<Longrightarrow> u mod 256 = 255" by simp
  have "outcomes_holding Glibc s = (if u mod 256 = 255 \<and> u \<noteq> 65535 then 0 else 1)"
    unfolding outcomes_holding_def swift_WIFEXITED_def swift_WIFSIGNALED_def
      swift_WIFSTOPPED_def swift_WIFCONTINUED_def
    using mod_256_127 [of u] mod_256_255 [of u] mod_128_127 [of u] c
    by (auto simp add: glibc_WIFSIGNALED_iff glibc_WIFEXITED_iff glibc_WIFSTOPPED_iff
        glibc_WIFCONTINUED_iff simp flip: u_def)
  then show ?thesis by (simp only: low8_eq_ff eq_ffff u_def)
qed

subsection \<open>Darwin's predicates\<close>

lemma darwin_outcomes_holding: "outcomes_holding Darwin s = 1"
  unfolding outcomes_holding_def swift_WIFEXITED_def swift_WIFSIGNALED_def
    swift_WIFSTOPPED_def swift_WIFCONTINUED_def
  by (simp add: darwin_WIFEXITED_def darwin_WIFSIGNALED_def darwin_WIFSTOPPED_def
      darwin_WIFCONTINUED_def darwin_WSTATUS_def c_bool_def)

subsection \<open>The exit code\<close>

lemma WEXITSTATUS_le_255: "uint (WEXITSTATUS l s) \<le> 255"
proof (cases l)
  case Glibc
  have "drop_bit 8 (s AND 0xff00) = drop_bit 8 s AND 0xff"
    by (simp add: drop_bit_and)
  then show ?thesis
    using Glibc word_and_le1 [of "drop_bit 8 s" "0xff"]
    by (simp add: glibc_WEXITSTATUS_def word_le_def)
next
  case Darwin
  then show ?thesis
    using word_and_le1 [of "signed_drop_bit 8 s" "0xff"]
    by (simp add: darwin_WEXITSTATUS_def word_le_def)
qed

section \<open>Formatting and reading lines\<close>

lemma dec_digits_isdigit: "c \<in> set (dec_digits n) \<Longrightarrow> isdigit c"
proof (induction n rule: dec_digits.induct)
  case (1 n)
  show ?case
  proof (cases "n < 10")
    case True
    with "1.prems" have "c = char_of (48 + n)" by (simp add: dec_digits.simps [of n])
    with True show ?thesis by (simp add: isdigit_def of_char_of)
  next
    case False
    with "1.prems" have "c \<in> set (dec_digits (n div 10)) \<or> c = char_of (48 + n mod 10)"
      by (auto simp add: dec_digits.simps [of n])
    then show ?thesis
    proof
      assume "c \<in> set (dec_digits (n div 10))"
      with False "1.IH" show ?thesis by simp
    next
      assume "c = char_of (48 + n mod 10)"
      moreover have "n mod 10 < 10" by simp
      ultimately show ?thesis by (simp add: isdigit_def of_char_of)
    qed
  qed
qed

lemma fmt_d_chars: "c \<in> set (fmt_d v) \<Longrightarrow> isdigit c \<or> c = CHR ''-''"
  by (auto simp: fmt_d_def show_int_def dest: dec_digits_isdigit split: if_splits)

lemma fmt_d_no_newline [simp]: "newline \<notin> set (fmt_d v)"
  using fmt_d_chars [of newline v] by (auto simp: isdigit_def newline_def)

lemma fmt_d_no_space [simp]: "CHR '' '' \<notin> set (fmt_d v)"
  using fmt_d_chars [of "CHR '' ''" v] by (auto simp: isdigit_def)

lemma fmt_d_no_eq [simp]: "CHR ''='' \<notin> set (fmt_d v)"
  using fmt_d_chars [of "CHR ''=''" v] by (auto simp: isdigit_def)

lemma fmt_d_nonempty [simp]: "fmt_d v \<noteq> []"
  by (simp add: fmt_d_def show_int_def dec_digits.simps [of "nat (sint v)"])

lemma split_sp_nonempty [simp]: "split_sp s \<noteq> []"
  by (induction s) (auto split: list.splits)

lemma split_sp_no_space: "CHR '' '' \<notin> set a \<Longrightarrow> split_sp a = [a]"
  by (induction a) auto

lemma split_sp_token:
  "CHR '' '' \<notin> set a \<Longrightarrow> split_sp (a @ CHR '' '' # b) = a # split_sp b"
  by (induction a) auto

lemma split_sp_fmt_d [simp]:
  "split_sp (fmt_d v @ CHR '' '' # b) = fmt_d v # split_sp b"
  by (rule split_sp_token) simp

lemma split_sp_fmt_d_end [simp]: "split_sp (fmt_d v) = [fmt_d v]"
  by (rule split_sp_no_space) simp

lemma key_value_fmt_d [simp]:
  "CHR ''='' \<notin> set k \<Longrightarrow> key_value (k @ CHR ''='' # fmt_d v) = (k, fmt_d v)"
proof -
  assume "CHR ''='' \<notin> set k"
  then have k: "\<And>x. x \<in> set k \<Longrightarrow> x \<noteq> CHR ''=''" by auto
  show ?thesis
    by (simp add: key_value_def takeWhile_append2 [OF k] dropWhile_append2 [OF k])
qed

lemma fmt_d_count_newline [simp]: "count_list (fmt_d v) (CHR 0x0A) = 0"
  using fmt_d_no_newline [of v] by (simp add: newline_def)


lemma field_returned_line:
  "field ''exit'' (butlast (status_line ''OK'' pid ppid pgid sid e)) = Some (fmt_d e)"
  unfolding field_def line_fields_def status_line_def
  apply (simp add: butlast_append)
  apply (simp add: key_value_def)
  done

section \<open>What the helper prints\<close>

lemma one_line_status: "one_protocol_line (status_line ''OK'' pid ppid pgid sid e)"
  unfolding one_protocol_line_def status_line_def
  by (simp add: newline_def)

lemma take3_status: "take 3 (status_line ''OK'' pid ppid pgid sid e) = ''OK ''"
  by (simp add: status_line_def)

lemma print_status_stdout:
  "\<exists>pid ppid pgid sid.
     stdout (print_status os st e p) = stdout p @ status_line st pid ppid pgid sid e"
  by (auto simp: print_status_def Let_def split: prod.splits)

lemma print_status_stderr [simp]: "stderr (print_status os st e p) = stderr p"
  by (simp add: print_status_def Let_def split: prod.splits)

lemma print_status_OK:
  assumes "stdout p = []"
  shows "ok_report (stdout (print_status os ''OK'' e p)) e"
proof -
  obtain pid ppid pgid sid where
    "stdout (print_status os ''OK'' e p) = stdout p @ status_line ''OK'' pid ppid pgid sid e"
    using print_status_stdout by blast
  with assms show ?thesis
    by (simp only: ok_report_def append_Nil one_line_status take3_status field_returned_line simp_thms)
qed

lemma one_line_error: "newline \<notin> set msg \<Longrightarrow> one_protocol_line (error_line err msg)"
  unfolding one_protocol_line_def error_line_def
  by (simp add: newline_def)


lemmas run_defs = returned_def printed_def complaints_def main_def start_def Let_def

lemma exits_small [simp]:
  "exits os l argv k 0 \<longleftrightarrow> returned os l argv k = 0"
  "exits os l argv k 1 \<longleftrightarrow> returned os l argv k = 1"
  "exits os l argv k 42 \<longleftrightarrow> returned os l argv k = 42"
  by (auto simp add: exits_def exit_status_def)

lemma error_line_report:
  assumes "CHR 0x0A \<notin> set msg" and "CHR '' '' \<notin> set msg"
  shows "err_report (error_line err msg) err"
proof -
  have "one_protocol_line (error_line err msg)"
    using assms(1) unfolding one_protocol_line_def error_line_def
    by (simp add: newline_def)
  moreover have "take 4 (error_line err msg) = ''ERR ''"
    by (simp add: error_line_def)
  moreover have "field ''errno'' (butlast (error_line err msg)) = Some (fmt_d err)"
    using assms(2)
    by (simp add: error_line_def butlast_append field_def line_fields_def key_value_def
        split_sp_no_space)
  ultimately show ?thesis by (simp add: err_report_def)
qed

lemma atoi_0: "atoi ''0'' = 0"
  by (simp add: atoi_def strtol10_def isspace_def isdigit_def clamp_long_def)

lemma verify_parent_match:
  assumes "fst (os_getppid os k) = atoi ppid"
  shows "returned os l (prog # ''verify-parent'' # ppid # rest) k = 0"
    and "ok_report (printed os l (prog # ''verify-parent'' # ppid # rest) k) 0"
  using assms
  by (simp_all add: run_defs cmd_verify_parent_def print_status_OK split_beta)

lemma verify_parent_mismatch:
  assumes "fst (os_getppid os k) \<noteq> atoi ppid"
  shows "returned os l (prog # ''verify-parent'' # ppid # rest) k = 1"
    and "printed os l (prog # ''verify-parent'' # ppid # rest) k =
           ''ERR errno=0 msg=ppid_mismatch expected='' @ fmt_d (atoi ppid) @ '' actual=''
             @ fmt_d (fst (os_getppid os k)) @ [newline]"
  using assms
  by (simp_all add: run_defs cmd_verify_parent_def printf_out_def split_beta)

lemma mismatch_line:
  "one_protocol_line (''ERR errno=0 msg=ppid_mismatch expected='' @ fmt_d a @ '' actual=''
             @ fmt_d b @ [newline])"
  "field ''expected'' (''ERR errno=0 msg=ppid_mismatch expected='' @ fmt_d a @ '' actual=''
             @ fmt_d b) = Some (fmt_d a)"
  "field ''actual'' (''ERR errno=0 msg=ppid_mismatch expected='' @ fmt_d a @ '' actual=''
             @ fmt_d b) = Some (fmt_d b)"
  by (simp_all add: one_protocol_line_def newline_def field_def line_fields_def key_value_def)

lemma print_error_stdout [simp]:
  "stdout (print_error err msg p) = stdout p @ error_line err msg"
  by (simp add: print_error_def)

lemma print_error_stderr [simp]: "stderr (print_error err msg p) = stderr p"
  by (simp add: print_error_def)

lemma double_setsid_first_fails:
  assumes "sint (fst (os_setsid os k)) \<le> 0"
  shows "returned os l [prog, ''double-setsid''] k = 1"
    and "printed os l [prog, ''double-setsid''] k =
           ''ERR errno='' @ fmt_d (os_errno os (snd (os_setsid os k)))
             @ '' msg=first_setsid_failed'' @ [newline]"
    and "err_report (printed os l [prog, ''double-setsid''] k)
           (os_errno os (snd (os_setsid os k)))"
proof -
  have p: "printed os l [prog, ''double-setsid''] k =
      error_line (os_errno os (snd (os_setsid os k))) ''first_setsid_failed''"
    using assms by (simp add: run_defs cmd_double_setsid_def split_beta)
  show "returned os l [prog, ''double-setsid''] k = 1"
    using assms by (simp add: run_defs cmd_double_setsid_def split_beta)
  show "printed os l [prog, ''double-setsid''] k =
           ''ERR errno='' @ fmt_d (os_errno os (snd (os_setsid os k)))
             @ '' msg=first_setsid_failed'' @ [newline]"
    unfolding p by (simp add: error_line_def)
  show "err_report (printed os l [prog, ''double-setsid''] k)
           (os_errno os (snd (os_setsid os k)))"
    unfolding p by (rule error_line_report) simp_all
qed

lemma double_setsid_second_eperm:
  assumes "0 < sint (fst (os_setsid os k))"
    and "sint (fst (os_setsid os (snd (os_setsid os k)))) < 0"
    and "os_errno os (snd (os_setsid os (snd (os_setsid os k)))) = EPERM"
  shows "returned os l [prog, ''double-setsid''] k = 0"
    and "ok_report (printed os l [prog, ''double-setsid''] k) 0"
  using assms by (simp_all add: run_defs cmd_double_setsid_def split_beta print_status_OK)

lemma double_setsid_second_other:
  assumes "0 < sint (fst (os_setsid os k))"
    and "\<not> (sint (fst (os_setsid os (snd (os_setsid os k)))) < 0
            \<and> os_errno os (snd (os_setsid os (snd (os_setsid os k)))) = EPERM)"
  shows "returned os l [prog, ''double-setsid''] k = 1"
    and "printed os l [prog, ''double-setsid''] k =
           ''ERR errno='' @ fmt_d (os_errno os (snd (os_setsid os (snd (os_setsid os k)))))
             @ '' msg=second_setsid_should_fail_eperm'' @ [newline]"
    and "err_report (printed os l [prog, ''double-setsid''] k)
           (os_errno os (snd (os_setsid os (snd (os_setsid os k)))))"
proof -
  have p: "printed os l [prog, ''double-setsid''] k =
      error_line (os_errno os (snd (os_setsid os (snd (os_setsid os k)))))
        ''second_setsid_should_fail_eperm''"
    using assms by (auto simp add: run_defs cmd_double_setsid_def split_beta)
  show "returned os l [prog, ''double-setsid''] k = 1"
    using assms by (auto simp add: run_defs cmd_double_setsid_def split_beta)
  show "printed os l [prog, ''double-setsid''] k =
           ''ERR errno='' @ fmt_d (os_errno os (snd (os_setsid os (snd (os_setsid os k)))))
             @ '' msg=second_setsid_should_fail_eperm'' @ [newline]"
    unfolding p by (simp add: error_line_def)
  show "err_report (printed os l [prog, ''double-setsid''] k)
           (os_errno os (snd (os_setsid os (snd (os_setsid os k)))))"
    unfolding p by (rule error_line_report) simp_all
qed

lemma posix_setsid_twice:
  assumes "0 < sint (fst (posix_setsid w))"
  shows "fst (posix_setsid (snd (posix_setsid w))) = - 1"
    and "w_errno (snd (posix_setsid (snd (posix_setsid w)))) = EPERM"
  using assms by (auto simp add: posix_setsid_def split: if_splits)

lemma posix_simps [simp]:
  "os_getpid posix = posix_getpid" "os_getppid posix = posix_getppid"
  "os_getpgid posix = posix_getpgid" "os_getsid posix = posix_getsid"
  "os_setsid posix = posix_setsid" "os_setpgid posix = posix_setpgid"
  "os_fork posix = posix_fork" "os_waitpid posix = posix_waitpid"
  "os_raise posix = posix_raise" "os_errno posix = w_errno"
  by (simp_all add: posix_def)


lemma printf_out_stdout [simp]: "stdout (printf_out s p) = stdout p @ s"
  by (simp add: printf_out_def)

lemma printf_out_stderr [simp]: "stderr (printf_out s p) = stderr p"
  by (simp add: printf_out_def)

lemma fprintf_stderr_stdout [simp]: "stdout (fprintf_stderr s p) = stdout p"
  by (simp add: fprintf_stderr_def)

lemma fprintf_stderr_stderr [simp]: "stderr (fprintf_stderr s p) = stderr p @ s"
  by (simp add: fprintf_stderr_def)

lemma fmt_d_42: "fmt_d 42 = ''42''"
  by code_simp

lemma fmt_d_minus_1: "fmt_d (- 1) = ''-1''"
  by code_simp

lemma atoi_42: "atoi ''42'' = 42"
  by (simp add: atoi_def strtol10_def isspace_def isdigit_def clamp_long_def)

lemma fmt_d_0: "fmt_d 0 = ''0''"
  by code_simp

lemma custom_err_report_raw:
  "err_report (''ERR errno=0 msg=not_group_leader pid='' @ fmt_d a @ '' pgid='' @ fmt_d b
     @ [newline]) 0"
  "err_report (''ERR errno=0 msg=pgid_not_set pid='' @ fmt_d a @ '' pgid='' @ fmt_d b
     @ [newline]) 0"
  by (simp_all add: err_report_def one_protocol_line_def newline_def butlast_append field_def
      line_fields_def key_value_def fmt_d_0)

lemmas custom_err_report = custom_err_report_raw [simplified]

subsection \<open>\<^verbatim>\<open>become-group-leader\<close>\<close>

lemma become_group_leader_fails:
  assumes "fst (os_setpgid os 0 0 k) \<noteq> 0"
  shows "returned os l (prog # ''become-group-leader'' # args) k = 1"
    and "printed os l (prog # ''become-group-leader'' # args) k =
           ''ERR errno='' @ fmt_d (os_errno os (snd (os_setpgid os 0 0 k)))
             @ '' msg=setpgid_failed'' @ [newline]"
    and "err_report (printed os l (prog # ''become-group-leader'' # args) k)
           (os_errno os (snd (os_setpgid os 0 0 k)))"
proof -
  have p: "printed os l (prog # ''become-group-leader'' # args) k =
      error_line (os_errno os (snd (os_setpgid os 0 0 k))) ''setpgid_failed''"
    using assms by (simp add: run_defs cmd_become_group_leader_def split_beta)
  show "returned os l (prog # ''become-group-leader'' # args) k = 1"
    using assms by (simp add: run_defs cmd_become_group_leader_def split_beta)
  show "printed os l (prog # ''become-group-leader'' # args) k =
           ''ERR errno='' @ fmt_d (os_errno os (snd (os_setpgid os 0 0 k)))
             @ '' msg=setpgid_failed'' @ [newline]"
    unfolding p by (simp add: error_line_def)
  show "err_report (printed os l (prog # ''become-group-leader'' # args) k)
           (os_errno os (snd (os_setpgid os 0 0 k)))"
    unfolding p by (rule error_line_report) simp_all
qed

lemma become_group_leader_verified:
  assumes "fst (os_setpgid os 0 0 k) = 0"
    and "fst (os_getpgid os 0 (snd (os_getpid os (snd (os_setpgid os 0 0 k)))))
         = fst (os_getpid os (snd (os_setpgid os 0 0 k)))"
  shows "returned os l (prog # ''become-group-leader'' # args) k = 0"
    and "ok_report (printed os l (prog # ''become-group-leader'' # args) k) 0"
  using assms
  by (simp_all add: run_defs cmd_become_group_leader_def split_beta print_status_OK)

lemma become_group_leader_disagrees:
  assumes "fst (os_setpgid os 0 0 k) = 0"
    and "fst (os_getpgid os 0 (snd (os_getpid os (snd (os_setpgid os 0 0 k)))))
         \<noteq> fst (os_getpid os (snd (os_setpgid os 0 0 k)))"
  shows "returned os l (prog # ''become-group-leader'' # args) k = 1"
    and "printed os l (prog # ''become-group-leader'' # args) k =
           ''ERR errno=0 msg=not_group_leader pid=''
             @ fmt_d (fst (os_getpid os (snd (os_setpgid os 0 0 k)))) @ '' pgid=''
             @ fmt_d (fst (os_getpgid os 0 (snd (os_getpid os (snd (os_setpgid os 0 0 k))))))
             @ [newline]"
    and "err_report (printed os l (prog # ''become-group-leader'' # args) k) 0"
  using assms
  by (simp_all add: run_defs cmd_become_group_leader_def split_beta custom_err_report)

subsection \<open>\<^verbatim>\<open>setpgid-explicit\<close>\<close>

lemma setpgid_explicit_fails:
  assumes "fst (os_setpgid os (fst (os_getpid os k)) (fst (os_getpid os k))
                 (snd (os_getpid os k))) \<noteq> 0"
  shows "returned os l (prog # ''setpgid-explicit'' # args) k = 1"
    and "printed os l (prog # ''setpgid-explicit'' # args) k =
           ''ERR errno='' @ fmt_d (os_errno os (snd (os_setpgid os (fst (os_getpid os k))
             (fst (os_getpid os k)) (snd (os_getpid os k)))))
             @ '' msg=setpgid_explicit_failed'' @ [newline]"
    and "err_report (printed os l (prog # ''setpgid-explicit'' # args) k)
           (os_errno os (snd (os_setpgid os (fst (os_getpid os k))
             (fst (os_getpid os k)) (snd (os_getpid os k)))))"
proof -
  have p: "printed os l (prog # ''setpgid-explicit'' # args) k =
      error_line (os_errno os (snd (os_setpgid os (fst (os_getpid os k))
             (fst (os_getpid os k)) (snd (os_getpid os k))))) ''setpgid_explicit_failed''"
    using assms by (simp add: run_defs cmd_setpgid_explicit_def split_beta)
  show "returned os l (prog # ''setpgid-explicit'' # args) k = 1"
    using assms by (simp add: run_defs cmd_setpgid_explicit_def split_beta)
  show "printed os l (prog # ''setpgid-explicit'' # args) k =
           ''ERR errno='' @ fmt_d (os_errno os (snd (os_setpgid os (fst (os_getpid os k))
             (fst (os_getpid os k)) (snd (os_getpid os k)))))
             @ '' msg=setpgid_explicit_failed'' @ [newline]"
    unfolding p by (simp add: error_line_def)
  show "err_report (printed os l (prog # ''setpgid-explicit'' # args) k)
           (os_errno os (snd (os_setpgid os (fst (os_getpid os k))
             (fst (os_getpid os k)) (snd (os_getpid os k)))))"
    unfolding p by (rule error_line_report) simp_all
qed

lemma setpgid_explicit_verified:
  assumes "fst (os_setpgid os (fst (os_getpid os k)) (fst (os_getpid os k))
                 (snd (os_getpid os k))) = 0"
    and "fst (os_getpgid os (fst (os_getpid os k))
           (snd (os_setpgid os (fst (os_getpid os k)) (fst (os_getpid os k))
                 (snd (os_getpid os k))))) = fst (os_getpid os k)"
  shows "returned os l (prog # ''setpgid-explicit'' # args) k = 0"
    and "ok_report (printed os l (prog # ''setpgid-explicit'' # args) k) 0"
  using assms
  by (simp_all add: run_defs cmd_setpgid_explicit_def split_beta print_status_OK)

lemma setpgid_explicit_disagrees:
  assumes "fst (os_setpgid os (fst (os_getpid os k)) (fst (os_getpid os k))
                 (snd (os_getpid os k))) = 0"
    and "fst (os_getpgid os (fst (os_getpid os k))
           (snd (os_setpgid os (fst (os_getpid os k)) (fst (os_getpid os k))
                 (snd (os_getpid os k))))) \<noteq> fst (os_getpid os k)"
  shows "returned os l (prog # ''setpgid-explicit'' # args) k = 1"
    and "printed os l (prog # ''setpgid-explicit'' # args) k =
           ''ERR errno=0 msg=pgid_not_set pid='' @ fmt_d (fst (os_getpid os k)) @ '' pgid=''
             @ fmt_d (fst (os_getpgid os (fst (os_getpid os k))
                 (snd (os_setpgid os (fst (os_getpid os k)) (fst (os_getpid os k))
                   (snd (os_getpid os k))))))
             @ [newline]"
    and "err_report (printed os l (prog # ''setpgid-explicit'' # args) k) 0"
  using assms
  by (simp_all add: run_defs cmd_setpgid_explicit_def split_beta custom_err_report)

lemma posix_setpgid_self:
  assumes "fst (posix_setpgid 0 0 w) = 0"
  shows "fst (posix_getpgid 0 (snd (posix_getpid (snd (posix_setpgid 0 0 w))))) = w_pid w"
    and "fst (posix_getpid (snd (posix_setpgid 0 0 w))) = w_pid w"
  using assms
  by (auto simp add: posix_setpgid_def posix_getpgid_def posix_getpid_def Let_def
      split: if_splits)

lemma posix_setpgid_pid:
  assumes "fst (posix_setpgid (w_pid w) (w_pid w) w) = 0"
  shows "fst (posix_getpgid (w_pid w) (snd (posix_setpgid (w_pid w) (w_pid w) w))) = w_pid w"
  using assms
  by (auto simp add: posix_setpgid_def posix_getpgid_def Let_def split: if_splits)

subsection \<open>\<^verbatim>\<open>fork-exit\<close>\<close>

lemma fork_exit_parent:
  assumes "os_fork os k = (child, k1)" and "0 < sint child"
    and "os_waitpid os child 0 k1 = ((child, status), k2)"
    and "os_getpid os k2 = (pid, k3)"
  shows "returned os l (prog # ''fork-exit'' # args) k = 0"
    and "printed os l (prog # ''fork-exit'' # args) k =
           ''OK pid='' @ fmt_d pid @ '' child='' @ fmt_d child @ '' child_exit=''
             @ fmt_d (if WIFEXITED l status \<noteq> 0 then WEXITSTATUS l status else - 1)
             @ [newline]"
proof -
  from assms(2) have "child \<noteq> 0" "\<not> sint child < 0" by auto
  with assms show "returned os l (prog # ''fork-exit'' # args) k = 0"
    and "printed os l (prog # ''fork-exit'' # args) k =
           ''OK pid='' @ fmt_d pid @ '' child='' @ fmt_d child @ '' child_exit=''
             @ fmt_d (if WIFEXITED l status \<noteq> 0 then WEXITSTATUS l status else - 1)
             @ [newline]"
    by (simp_all add: run_defs cmd_fork_exit_def)
qed

lemma fork_exit_child:
  assumes "fst (os_fork os k) = 0"
  shows "returned os l (prog # ''fork-exit'' # args) k = code_arg (prog # ''fork-exit'' # args)"
    and "printed os l (prog # ''fork-exit'' # args) k = []"
    and "complaints os l (prog # ''fork-exit'' # args) k = []"
  using assms by (simp_all add: run_defs cmd_fork_exit_def split_beta)

lemma fork_line_fields:
  "field ''child_exit'' (''OK pid='' @ fmt_d a @ '' child='' @ fmt_d b @ '' child_exit='' @ fmt_d c) = Some (fmt_d c)"
  "field ''exit'' (''OK pid='' @ fmt_d a @ '' child='' @ fmt_d b @ '' child_exit='' @ fmt_d c) = None"
  by (simp_all add: field_def line_fields_def key_value_def)

lemma ok_report_one_line: "ok_report out e \<Longrightarrow> one_protocol_line out"
  by (simp add: ok_report_def)

lemma one_line_custom:
  "one_protocol_line (''ERR errno=0 msg=not_group_leader pid='' @ fmt_d a @ '' pgid='' @ fmt_d b @ [newline])"
  "one_protocol_line (''ERR errno=0 msg=pgid_not_set pid='' @ fmt_d a @ '' pgid='' @ fmt_d b @ [newline])"
  "one_protocol_line (''OK pid='' @ fmt_d a @ '' child='' @ fmt_d b @ '' child_exit='' @ fmt_d c @ [newline])"
  by (simp_all add: one_protocol_line_def newline_def)

lemmas one_line_printf = one_line_custom [simplified] mismatch_line(1) [simplified]

lemma one_line_error_lit: "CHR 0x0A \<notin> set msg \<Longrightarrow> one_protocol_line (error_line err msg)"
  using one_line_error [of msg err] by (simp add: newline_def)

lemma print_status_one_line:
  "stdout p = [] \<Longrightarrow> one_protocol_line (stdout (print_status os ''OK'' e p))"
  by (rule ok_report_one_line) (rule print_status_OK)

lemma line_exit:
  assumes "2 \<le> length argv" and "argv ! 1 = ''exit''"
  shows "one_protocol_line (printed os l argv k) \<and> complaints os l argv k = []"
  using assms by (simp add: run_defs cmd_exit_def print_status_one_line)

lemma line_stop_exit:
  assumes "2 \<le> length argv" and "argv ! 1 = ''stop-exit''"
  shows "one_protocol_line (printed os l argv k) \<and> complaints os l argv k = []"
  using assms by (simp add: run_defs cmd_stop_exit_def split_beta print_status_one_line)

lemma line_verify_parent:
  assumes "3 \<le> length argv" and "argv ! 1 = ''verify-parent''"
  shows "one_protocol_line (printed os l argv k) \<and> complaints os l argv k = []"
  using assms
  by (simp add: run_defs cmd_verify_parent_def split_beta print_status_one_line one_line_printf)

lemma line_create_session:
  assumes "2 \<le> length argv" and "argv ! 1 = ''create-session''"
  shows "one_protocol_line (printed os l argv k) \<and> complaints os l argv k = []"
  using assms
  by (simp add: run_defs cmd_create_session_def split_beta print_status_one_line
      one_line_error_lit)

lemma line_double_setsid:
  assumes "2 \<le> length argv" and "argv ! 1 = ''double-setsid''"
  shows "one_protocol_line (printed os l argv k) \<and> complaints os l argv k = []"
  using assms
  by (simp add: run_defs cmd_double_setsid_def split_beta print_status_one_line
      one_line_error_lit)

lemma line_become_group_leader:
  assumes "2 \<le> length argv" and "argv ! 1 = ''become-group-leader''"
  shows "one_protocol_line (printed os l argv k) \<and> complaints os l argv k = []"
  using assms
  by (simp add: run_defs cmd_become_group_leader_def split_beta print_status_one_line
      one_line_error_lit one_line_printf)

lemma line_setpgid_explicit:
  assumes "2 \<le> length argv" and "argv ! 1 = ''setpgid-explicit''"
  shows "one_protocol_line (printed os l argv k) \<and> complaints os l argv k = []"
  using assms
  by (simp add: run_defs cmd_setpgid_explicit_def split_beta print_status_one_line
      one_line_error_lit one_line_printf)

lemma line_fork_exit:
  assumes "2 \<le> length argv" and "argv ! 1 = ''fork-exit''" and "fst (os_fork os k) \<noteq> 0"
  shows "one_protocol_line (printed os l argv k) \<and> complaints os l argv k = []"
  using assms
  by (simp add: run_defs cmd_fork_exit_def split_beta
      one_line_error_lit one_line_printf)

lemma silent_fork_child:
  assumes "2 \<le> length argv" and "argv ! 1 = ''fork-exit''" and "fst (os_fork os k) = 0"
  shows "printed os l argv k = [] \<and> complaints os l argv k = []"
  using assms
  by (simp add: run_defs cmd_fork_exit_def split_beta)

lemma silent_no_command:
  assumes "length argv < 2"
  shows "printed os l argv k = [] \<and> complaints os l argv k = usage \<and> returned os l argv k = 1"
  using assms by (simp add: run_defs)

lemma silent_unknown:
  assumes "2 \<le> length argv" and "argv ! 1 \<notin> set commands"
  shows "printed os l argv k = [] \<and>
         complaints os l argv k = ''Unknown command: '' @ argv ! 1 @ [newline] \<and>
         returned os l argv k = 1"
  using assms by (simp add: run_defs commands_def)

lemma silent_verify_parent:
  assumes "length argv = 2" and "argv ! 1 = ''verify-parent''"
  shows "printed os l argv k = [] \<and>
         complaints os l argv k = ''verify-parent requires <ppid> argument'' @ [newline] \<and>
         returned os l argv k = 1"
  using assms by (simp add: run_defs cmd_verify_parent_def)


subsection \<open>Reading back what \<^verbatim>\<open>%d\<close> prints\<close>

lemma digit_char: "n < 10 \<Longrightarrow> isdigit (char_of (48 + n)) \<and> (of_char (char_of (48 + n)) :: int) = 48 + int n"
proof -
  assume n: "n < 10"
  have "(of_char (char_of (48 + n)) :: nat) = 48 + n" using n by (simp add: of_char_of)
  moreover have "(of_char (char_of (48 + n)) :: int) = int (of_char (char_of (48 + n)) :: nat)"
    by (simp only: of_nat_of_char)
  ultimately show ?thesis using n by (simp add: isdigit_def)
qed

lemma strtol_digits_dec_digits:
  "strtol_digits acc (dec_digits n @ rest) =
     strtol_digits (acc * 10 ^ length (dec_digits n) + int n) rest"
proof (induction n arbitrary: acc rest rule: dec_digits.induct)
  case (1 n)
  show ?case
  proof (cases "n < 10")
    case True
    then show ?thesis
      using digit_char [of n] by (simp add: dec_digits.simps [of n])
  next
    case False
    have m: "n mod 10 < 10" by simp
    have "strtol_digits acc (dec_digits n @ rest) =
          strtol_digits acc (dec_digits (n div 10) @ char_of (48 + n mod 10) # rest)"
      using False by (simp add: dec_digits.simps [of n])
    also have "\<dots> = strtol_digits (acc * 10 ^ length (dec_digits (n div 10)) + int (n div 10))
                      (char_of (48 + n mod 10) # rest)"
      using False by (rule "1.IH")
    also have "\<dots> = strtol_digits ((acc * 10 ^ length (dec_digits (n div 10)) + int (n div 10)) * 10
                        + int (n mod 10)) rest"
      using digit_char [OF m] by simp
    also have "(acc * 10 ^ length (dec_digits (n div 10)) + int (n div 10)) * 10 + int (n mod 10)
               = acc * 10 ^ length (dec_digits n) + int n"
    proof -
      have "length (dec_digits n) = Suc (length (dec_digits (n div 10)))"
        using False by (simp add: dec_digits.simps [of n])
      moreover have "int (n div 10) * 10 + int (n mod 10) = int n"
        by (simp add: zdiv_int zmod_int)
      ultimately show ?thesis by (simp add: algebra_simps)
    qed
    finally show ?thesis .
  qed
qed

lemma strtol_digits_dec: "strtol_digits 0 (dec_digits n) = int n"
  using strtol_digits_dec_digits [of 0 n "[]"] by simp

lemma dec_digits_hd: "\<exists>c cs. dec_digits n = c # cs \<and> isdigit c"
proof -
  have "dec_digits n \<noteq> []" by (simp add: dec_digits.simps [of n])
  then obtain c cs where e: "dec_digits n = c # cs" by (cases "dec_digits n") auto
  then have "c \<in> set (dec_digits n)" by simp
  then have "isdigit c" by (rule dec_digits_isdigit)
  with e show ?thesis by blast
qed

lemma isdigit_not_special:
  "isdigit c \<Longrightarrow> \<not> isspace c \<and> c \<noteq> CHR ''-'' \<and> c \<noteq> CHR ''+''"
  by (auto simp: isdigit_def isspace_def)

lemma strtol10_show_int:
  assumes "- (2 ^ 63) \<le> i" and "i < 2 ^ 63"
  shows "strtol10 (show_int i) = i"
proof (cases "i < 0")
  case True
  have "\<not> isspace (CHR ''-'')" by (simp add: isspace_def)
  then have "strtol10 (show_int i) = clamp_long (- strtol_digits 0 (dec_digits (nat (- i))))"
    using True by (simp add: strtol10_def show_int_def)
  also have "\<dots> = clamp_long i" using True by (simp add: strtol_digits_dec)
  also have "\<dots> = i" using assms by (simp add: clamp_long_def)
  finally show ?thesis .
next
  case False
  obtain c cs where e: "dec_digits (nat i) = c # cs" and d: "isdigit c"
    using dec_digits_hd by blast
  from d have "\<not> isspace c" "c \<noteq> CHR ''-''" "c \<noteq> CHR ''+''"
    using isdigit_not_special by blast+
  then have "strtol10 (show_int i) = clamp_long (strtol_digits 0 (dec_digits (nat i)))"
    using False e by (simp add: strtol10_def show_int_def)
  also have "\<dots> = clamp_long i" using False by (simp add: strtol_digits_dec)
  also have "\<dots> = i" using assms by (simp add: clamp_long_def)
  finally show ?thesis .
qed

lemma atoi_fmt_d: "atoi (fmt_d v) = v"
proof -
  have "- (2 ^ 31) \<le> sint v" "sint v < 2 ^ 31"
    using sint_ge [of v] sint_lt [of v] by simp_all
  then have "- (2 ^ 63) \<le> sint v" "sint v < 2 ^ 63" by simp_all
  then have "strtol10 (show_int (sint v)) = sint v" by (rule strtol10_show_int)
  then show ?thesis by (simp add: atoi_def fmt_d_def)
qed

subsection \<open>Concrete values\<close>

lemma atoi_50: "atoi ''50'' = 50"
  by (simp add: atoi_def strtol10_def isspace_def isdigit_def clamp_long_def)

lemma atoi_51: "atoi ''51'' = 51"
  by (simp add: atoi_def strtol10_def isspace_def isdigit_def clamp_long_def)

lemma exit_code_42:
  "WIFEXITED l (W_EXITCODE 42 0) \<noteq> 0" "WEXITSTATUS l (W_EXITCODE 42 0) = 42"
  by (cases l; simp add: W_EXITCODE_def glibc_WIFEXITED_def glibc_WTERMSIG_def
      glibc_WEXITSTATUS_def darwin_WIFEXITED_def darwin_WSTATUS_def darwin_WEXITSTATUS_def
      c_bool_def)+

lemma killed_9: "WIFEXITED l 9 = 0"
  by (cases l; simp add: glibc_WIFEXITED_def glibc_WTERMSIG_def
      darwin_WIFEXITED_def darwin_WSTATUS_def c_bool_def)

lemma fresh_world_simps [simp]:
  "w_pid (fresh_world a b) = 100" "w_ppid (fresh_world a b) = 50"
  "w_pgid (fresh_world a b) = 50" "w_sid (fresh_world a b) = 50"
  "w_errno (fresh_world a b) = 0" "w_fork (fresh_world a b) = Inr 101"
  "w_wait (fresh_world a b) = Inr (a, b)"
  by (simp_all add: fresh_world_def)

lemma posix_fork_fresh: "posix_fork (fresh_world a b) = (101, fresh_world a b)"
  by (simp add: posix_fork_def)

lemma posix_waitpid_fresh: "posix_waitpid c 0 (fresh_world a b) = ((a, b), fresh_world a b)"
  by (simp add: posix_waitpid_def)

lemma posix_getpid_fresh: "posix_getpid (fresh_world a b) = (100, fresh_world a b)"
  by (simp add: posix_getpid_def)

lemma fmt_d_100: "fmt_d 100 = ''100''" "fmt_d 101 = ''101''"
  by code_simp+

subsection \<open>\<^verbatim>\<open>exit\<close>\<close>

lemma exit_run:
  "returned os l (prog # ''exit'' # code # rest) k = atoi code \<and>
   ok_report (printed os l (prog # ''exit'' # code # rest) k) (atoi code)"
  by (simp add: run_defs cmd_exit_def code_arg_def print_status_OK)

subsection \<open>The low 8 bits of a returned value\<close>

lemma sint_nonneg_uint:
  fixes c :: cint
  assumes "0 \<le> sint c"
  shows "uint c = sint c"
proof -
  have "\<not> bit c 31"
    using assms bit_last_iff [of c] by simp
  then have "\<not> bit (uint c) 31" by (simp add: bit_uint_iff)
  then have "signed_take_bit 31 (uint c) = take_bit 31 (uint c)"
    by (simp add: signed_take_bit_eq_if_positive)
  moreover have "take_bit 32 (uint c) = uint c"
    by (simp add: take_bit_int_eq_self uint_lt2p [of c, simplified])
  moreover have "take_bit 32 (uint c) = take_bit 31 (uint c)"
    using \<open>\<not> bit (uint c) 31\<close> by (simp add: take_bit_Suc_from_most [of 31 "uint c", simplified])
  ultimately show ?thesis by (simp add: sint_uint)
qed

lemma and_ff_iff: "(c::cint) AND 0xff = c \<longleftrightarrow> 0 \<le> sint c \<and> sint c \<le> 255"
proof
  assume "c AND 0xff = c"
  then have "uint c = uint c mod 256" by (metis uint_low8)
  moreover have "uint c mod 256 < 256" by simp
  ultimately have "uint c \<le> 255" by linarith
  then have "sint c = uint c" by (rule sint_small)
  with \<open>uint c \<le> 255\<close> show "0 \<le> sint c \<and> sint c \<le> 255" by simp
next
  assume a: "0 \<le> sint c \<and> sint c \<le> 255"
  then have "uint c = sint c" by (simp add: sint_nonneg_uint)
  with a have "uint c mod 256 = uint c" by simp
  then have "uint (c AND 0xff) = uint c" by (simp add: uint_low8)
  then show "c AND 0xff = c" by (simp add: word_uint_eq_iff)
qed

lemma atoi_256: "atoi ''256'' = 256"
  by (simp add: atoi_def strtol10_def isspace_def isdigit_def clamp_long_def)

lemma fmt_d_256: "fmt_d 256 = ''256''"
  by code_simp

section \<open>Claims about \<^verbatim>\<open>shim.h\<close>\<close>

text \<open>
  C1, as the code has it. On every raw status at most one of \<open>swift_WIFEXITED\<close>,
  \<open>swift_WIFSIGNALED\<close>, \<open>swift_WIFSTOPPED\<close> and \<open>swift_WIFCONTINUED\<close> returns
  nonzero. Exactly one does with Darwin's header on every status, and with glibc's on
  every status but those whose low byte is \<open>0xff\<close> and that are not \<open>0xffff\<close>: on
  these none of the four does.
\<close>

theorem swift_status_predicates_exclusive:
  "outcomes_holding l status =
     (if l = Glibc \<and> status AND 0xff = 0xff \<and> status \<noteq> 0xffff then 0 else 1)"
  by (cases l) (simp_all only: glibc_outcomes_holding darwin_outcomes_holding libc.simps
      simp_thms if_False)

theorem swift_status_predicates_exclusive_witness:
  "outcomes_holding Glibc 0x2a00 = 1 \<and> outcomes_holding Glibc 0xffff = 1
   \<and> outcomes_holding Darwin 0xff = 1"
  using swift_status_predicates_exclusive [of Glibc "0x2a00"]
    swift_status_predicates_exclusive [of Glibc "0xffff"]
    swift_status_predicates_exclusive [of Darwin "0xff"]
  by simp

text \<open>
  C1, as stated (exactly one of the four predicates is nonzero on every raw status),
  fails with glibc's header on the status \<open>0xff\<close>: all four return 0.
\<close>

theorem swift_status_predicates_none_counterexample:
  "swift_WIFEXITED Glibc 0xff = 0 \<and> swift_WIFSIGNALED Glibc 0xff = 0
   \<and> swift_WIFSTOPPED Glibc 0xff = 0 \<and> swift_WIFCONTINUED Glibc 0xff = 0"
  by (simp add: swift_WIFEXITED_def swift_WIFSIGNALED_def swift_WIFSTOPPED_def
      swift_WIFCONTINUED_def glibc_WIFEXITED_def glibc_WIFSIGNALED_def glibc_WIFSTOPPED_def
      glibc_WIFCONTINUED_def glibc_WTERMSIG_def c_bool_def)

text \<open>
  C6. On every raw status \<open>swift_WEXITSTATUS\<close> returns a value from 0 to 255, with
  either header.
\<close>

theorem swift_WEXITSTATUS_range:
  "0 \<le> sint (swift_WEXITSTATUS l status) \<and> sint (swift_WEXITSTATUS l status) \<le> 255"
  using WEXITSTATUS_le_255 [of l status] sint_small [of "WEXITSTATUS l status"]
  by (simp add: swift_WEXITSTATUS_def)

section \<open>Claims about \<^verbatim>\<open>main.c\<close>\<close>

text \<open>
  In the theorems below \<open>exits os l argv k c\<close> says that \<^verbatim>\<open>main\<close> returns \<open>c\<close> (or
  passes it to \<^verbatim>\<open>_exit\<close>) and that the exit status of the process, the low 8 bits of
  that value, is \<open>c\<close> too. The numeric value of an argument is what \<^verbatim>\<open>atoi\<close> makes of
  it; \<open>atoi_fmt_d\<close> shows that \<^verbatim>\<open>atoi\<close> reads the decimal form of every \<^verbatim>\<open>int\<close> back
  as that \<^verbatim>\<open>int\<close>.
\<close>

text \<open>
  C2. For \<^verbatim>\<open>double-setsid\<close>, with any behaviour of the system calls: when the first
  \<^verbatim>\<open>setsid\<close> does not return a positive value the helper prints one \<open>ERR\<close> line
  whose \<open>errno\<close> field is \<^verbatim>\<open>errno\<close> and exits 1; when it does, the helper prints
  one \<open>OK\<close> line and exits 0 exactly when the second \<^verbatim>\<open>setsid\<close> returns a negative
  value with \<^verbatim>\<open>errno\<close> equal to \<^verbatim>\<open>EPERM\<close>, and otherwise prints one \<open>ERR\<close> line whose
  \<open>errno\<close> field is \<^verbatim>\<open>errno\<close> and exits 1. Under the session rules of the
  specification, a first \<^verbatim>\<open>setsid\<close> that succeeds is followed by a second that fails
  with \<^verbatim>\<open>EPERM\<close>, so that the helper prints \<open>OK\<close> and exits 0.
\<close>

theorem double_setsid:
  "(let first = os_setsid os k; second = os_setsid os (snd first);
        argv = [prog, ''double-setsid'']
    in (sint (fst first) \<le> 0 \<longrightarrow>
          exits os l argv k 1 \<and>
          err_report (printed os l argv k) (os_errno os (snd first)) \<and>
          printed os l argv k =
            ''ERR errno='' @ fmt_d (os_errno os (snd first)) @ '' msg=first_setsid_failed''
              @ [newline]) \<and>
       (0 < sint (fst first) \<longrightarrow>
          (if sint (fst second) < 0 \<and> os_errno os (snd second) = EPERM
           then exits os l argv k 0 \<and> ok_report (printed os l argv k) 0
           else exits os l argv k 1 \<and>
                err_report (printed os l argv k) (os_errno os (snd second)) \<and>
                printed os l argv k =
                  ''ERR errno='' @ fmt_d (os_errno os (snd second))
                    @ '' msg=second_setsid_should_fail_eperm'' @ [newline]))) \<and>
   (0 < sint (fst (posix_setsid w)) \<longrightarrow>
      fst (posix_setsid (snd (posix_setsid w))) = - 1 \<and>
      w_errno (snd (posix_setsid (snd (posix_setsid w)))) = EPERM \<and>
      exits posix l [prog, ''double-setsid''] w 0 \<and>
      ok_report (printed posix l [prog, ''double-setsid''] w) 0)"
proof -
  have a: "0 < sint (fst (posix_setsid w)) \<longrightarrow>
      fst (posix_setsid (snd (posix_setsid w))) = - 1 \<and>
      w_errno (snd (posix_setsid (snd (posix_setsid w)))) = EPERM \<and>
      exits posix l [prog, ''double-setsid''] w 0 \<and>
      ok_report (printed posix l [prog, ''double-setsid''] w) 0"
    using posix_setsid_twice [of w]
      double_setsid_second_eperm [of posix w l prog]
    by simp
  have b: "(let first = os_setsid os k; second = os_setsid os (snd first);
        argv = [prog, ''double-setsid'']
    in (sint (fst first) \<le> 0 \<longrightarrow>
          exits os l argv k 1 \<and>
          err_report (printed os l argv k) (os_errno os (snd first)) \<and>
          printed os l argv k =
            ''ERR errno='' @ fmt_d (os_errno os (snd first)) @ '' msg=first_setsid_failed''
              @ [newline]) \<and>
       (0 < sint (fst first) \<longrightarrow>
          (if sint (fst second) < 0 \<and> os_errno os (snd second) = EPERM
           then exits os l argv k 0 \<and> ok_report (printed os l argv k) 0
           else exits os l argv k 1 \<and>
                err_report (printed os l argv k) (os_errno os (snd second)) \<and>
                printed os l argv k =
                  ''ERR errno='' @ fmt_d (os_errno os (snd second))
                    @ '' msg=second_setsid_should_fail_eperm'' @ [newline])))"
  proof (cases "sint (fst (os_setsid os k)) \<le> 0")
    case True
    then have "\<not> 0 < sint (fst (os_setsid os k))" by simp
    with True double_setsid_first_fails [OF True, of l prog] show ?thesis
      unfolding Let_def exits_small by (simp only: simp_thms)
  next
    case False
    then have pos: "0 < sint (fst (os_setsid os k))" by simp
    show ?thesis
    proof (cases "sint (fst (os_setsid os (snd (os_setsid os k)))) < 0
        \<and> os_errno os (snd (os_setsid os (snd (os_setsid os k)))) = EPERM")
      case True
      then have t: "sint (fst (os_setsid os (snd (os_setsid os k)))) < 0"
        "os_errno os (snd (os_setsid os (snd (os_setsid os k)))) = EPERM" by simp_all
      from False pos True double_setsid_second_eperm [OF pos t, of l prog] show ?thesis
        unfolding Let_def exits_small by (simp only: simp_thms if_True)
    next
      case n: False
      from False pos n double_setsid_second_other [OF pos n, of l prog] show ?thesis
        unfolding Let_def exits_small by (simp only: simp_thms if_False)
    qed
  qed
  from b a show ?thesis ..
qed

theorem double_setsid_witness:
  "0 < sint (fst (posix_setsid (fresh_world 0 0))) \<and>
   fst (posix_setsid (snd (posix_setsid (fresh_world 0 0)))) = - 1 \<and>
   w_errno (snd (posix_setsid (snd (posix_setsid (fresh_world 0 0))))) = EPERM \<and>
   exits posix Glibc [''posix-test-helper'', ''double-setsid''] (fresh_world 0 0) 0 \<and>
   ok_report (printed posix Glibc [''posix-test-helper'', ''double-setsid''] (fresh_world 0 0)) 0"
proof -
  have h: "0 < sint (fst (posix_setsid (fresh_world 0 0)))"
    by (simp add: posix_setsid_def)
  show ?thesis
    using h double_setsid [where w = "fresh_world 0 0" and l = Glibc
        and prog = "''posix-test-helper''" and os = posix and k = "fresh_world 0 0"]
    by (simp only: simp_thms)
qed

text \<open>
  C3, as the code has it. For \<^verbatim>\<open>fork-exit 42\<close>: the child (the run in which \<^verbatim>\<open>fork\<close>
  returns 0) prints nothing and ends with \<^verbatim>\<open>_exit(42)\<close>, exit status 42; a status word
  for exit code 42 satisfies \<^verbatim>\<open>WIFEXITED\<close> and has \<^verbatim>\<open>WEXITSTATUS\<close> 42; and when
  \<^verbatim>\<open>fork\<close> returns the child's pid to the parent and \<^verbatim>\<open>waitpid\<close> returns that pid
  with the status word of the child's normal exit, the parent exits with status 0 after
  printing the one line \<^verbatim>\<open>OK pid=<self> child=<childpid> child_exit=42\<close>, whose
  \<open>child_exit\<close> field is 42 and which has no \<open>exit\<close> field.
\<close>

theorem fork_exit_42:
  "(fst (os_fork os kc) = 0 \<longrightarrow>
      exits os l (prog # ''fork-exit'' # ''42'' # rest) kc 42 \<and>
      printed os l (prog # ''fork-exit'' # ''42'' # rest) kc = []) \<and>
   WIFEXITED l (W_EXITCODE 42 0) \<noteq> 0 \<and> WEXITSTATUS l (W_EXITCODE 42 0) = 42 \<and>
   (fst (os_fork os kc) = 0 \<and>
    os_fork os k = (child, kf) \<and> 0 < sint child \<and>
    os_waitpid os child 0 kf =
      ((child, W_EXITCODE (exit_status os l (prog # ''fork-exit'' # ''42'' # rest) kc) 0), kw) \<and>
    os_getpid os kw = (pid, kp) \<longrightarrow>
      exits os l (prog # ''fork-exit'' # ''42'' # rest) k 0 \<and>
      printed os l (prog # ''fork-exit'' # ''42'' # rest) k =
        ''OK pid='' @ fmt_d pid @ '' child='' @ fmt_d child @ '' child_exit=42'' @ [newline] \<and>
      one_protocol_line (printed os l (prog # ''fork-exit'' # ''42'' # rest) k) \<and>
      field ''child_exit'' (butlast (printed os l (prog # ''fork-exit'' # ''42'' # rest) k))
        = Some ''42'' \<and>
      field ''exit'' (butlast (printed os l (prog # ''fork-exit'' # ''42'' # rest) k)) = None)"
proof (intro conjI impI)
  assume "fst (os_fork os kc) = 0"
  then show "exits os l (prog # ''fork-exit'' # ''42'' # rest) kc 42"
    and "printed os l (prog # ''fork-exit'' # ''42'' # rest) kc = []"
    using fork_exit_child [of os kc l prog "''42'' # rest"]
    by (simp_all add: code_arg_def atoi_42)
next
  show "WIFEXITED l (W_EXITCODE 42 0) \<noteq> 0" by (rule exit_code_42)
  show "WEXITSTATUS l (W_EXITCODE 42 0) = 42" by (rule exit_code_42)
next
  assume a: "fst (os_fork os kc) = 0 \<and>
    os_fork os k = (child, kf) \<and> 0 < sint child \<and>
    os_waitpid os child 0 kf =
      ((child, W_EXITCODE (exit_status os l (prog # ''fork-exit'' # ''42'' # rest) kc) 0), kw) \<and>
    os_getpid os kw = (pid, kp)"
  then have "returned os l (prog # ''fork-exit'' # ''42'' # rest) kc = 42"
    using fork_exit_child(1) [of os kc l prog "''42'' # rest"]
    by (simp add: code_arg_def atoi_42)
  then have c: "exit_status os l (prog # ''fork-exit'' # ''42'' # rest) kc = 42"
    by (simp add: exit_status_def)
  from a have f: "os_fork os k = (child, kf)" and s: "0 < sint child"
    and w: "os_waitpid os child 0 kf = ((child, W_EXITCODE 42 0), kw)"
    and g: "os_getpid os kw = (pid, kp)"
    by (simp_all only: c)
  have v: "(if WIFEXITED l (W_EXITCODE 42 0) \<noteq> 0 then WEXITSTATUS l (W_EXITCODE 42 0) else - 1)
            = 42"
    by (simp only: exit_code_42 simp_thms if_True)
  have p: "printed os l (prog # ''fork-exit'' # ''42'' # rest) k =
        ''OK pid='' @ fmt_d pid @ '' child='' @ fmt_d child @ '' child_exit='' @ fmt_d 42 @ [newline]"
    using fork_exit_parent(2) [OF f s w g, of l prog "''42'' # rest"]
    by (simp only: v)
  show "exits os l (prog # ''fork-exit'' # ''42'' # rest) k 0"
    using fork_exit_parent(1) [OF f s w g, of l prog "''42'' # rest"]
    by simp
  from p show "printed os l (prog # ''fork-exit'' # ''42'' # rest) k =
        ''OK pid='' @ fmt_d pid @ '' child='' @ fmt_d child @ '' child_exit=42'' @ [newline]"
    by (simp add: fmt_d_42)
  from p show "one_protocol_line (printed os l (prog # ''fork-exit'' # ''42'' # rest) k)"
    by (simp only: one_line_custom)
  from p have "butlast (printed os l (prog # ''fork-exit'' # ''42'' # rest) k) =
      ''OK pid='' @ fmt_d pid @ '' child='' @ fmt_d child @ '' child_exit='' @ fmt_d 42"
    by (simp add: butlast_append)
  then show "field ''child_exit'' (butlast (printed os l (prog # ''fork-exit'' # ''42'' # rest) k))
        = Some ''42''"
    and "field ''exit'' (butlast (printed os l (prog # ''fork-exit'' # ''42'' # rest) k)) = None"
    by (simp_all only: fork_line_fields) (simp add: fmt_d_42)
qed

theorem fork_exit_42_witness:
  "fst (posix_fork ((fresh_world 0 0)\<lparr>w_fork := Inr 0\<rparr>)) = 0 \<and>
   exits posix Glibc [''posix-test-helper'', ''fork-exit'', ''42'']
     ((fresh_world 0 0)\<lparr>w_fork := Inr 0\<rparr>) 42 \<and>
   exits posix Glibc [''posix-test-helper'', ''fork-exit'', ''42'']
     (fresh_world 101 (W_EXITCODE (exit_status posix Glibc
        [''posix-test-helper'', ''fork-exit'', ''42'']
        ((fresh_world 0 0)\<lparr>w_fork := Inr 0\<rparr>)) 0)) 0 \<and>
   printed posix Glibc [''posix-test-helper'', ''fork-exit'', ''42'']
     (fresh_world 101 (W_EXITCODE (exit_status posix Glibc
        [''posix-test-helper'', ''fork-exit'', ''42'']
        ((fresh_world 0 0)\<lparr>w_fork := Inr 0\<rparr>)) 0))
     = ''OK pid=100 child=101 child_exit=42'' @ [newline]"
proof -
  define kc where "kc = (fresh_world 0 0)\<lparr>w_fork := Inr 0\<rparr>"
  define st where "st = W_EXITCODE (exit_status posix Glibc
        [''posix-test-helper'', ''fork-exit'', ''42''] kc) 0"
  have c: "fst (os_fork posix kc) = 0"
    by (simp add: posix_fork_def kc_def)
  have s: "(0::int) < sint (101 :: cint)" by simp
  have f: "os_fork posix (fresh_world 101 st) = (101, fresh_world 101 st)"
    by (simp add: posix_fork_fresh)
  have w: "os_waitpid posix 101 0 (fresh_world 101 st) = ((101, st), fresh_world 101 st)"
    by (simp add: posix_waitpid_fresh)
  have g: "os_getpid posix (fresh_world 101 st) = (100, fresh_world 101 st)"
    by (simp add: posix_getpid_fresh)
  show ?thesis
    using c s f w g
      fork_exit_42 [where os = posix and l = Glibc and prog = "''posix-test-helper''"
        and rest = "[]" and kc = kc and k = "fresh_world 101 st" and child = 101
        and kf = "fresh_world 101 st" and kw = "fresh_world 101 st" and pid = 100
        and kp = "fresh_world 101 st"]
    unfolding st_def [symmetric] kc_def [symmetric]
    by (simp add: fmt_d_100 st_def)
qed

text \<open>
  C3, as stated, gives the \<open>OK\<close> line of \<^verbatim>\<open>fork-exit 42\<close> an \<open>exit\<close> field equal to
  0. The line the helper prints for child 101 from process 100 is
  \<^verbatim>\<open>OK pid=100 child=101 child_exit=42\<close>: it has no \<open>exit\<close> field.
\<close>

theorem fork_exit_42_exit_field_counterexample:
  "fst (posix_fork (fresh_world 101 (W_EXITCODE 42 0))) = 101 \<and>
   fst (posix_waitpid 101 0 (fresh_world 101 (W_EXITCODE 42 0))) = (101, W_EXITCODE 42 0) \<and>
   WIFEXITED Glibc (W_EXITCODE 42 0) \<noteq> 0 \<and>
   printed posix Glibc [''posix-test-helper'', ''fork-exit'', ''42'']
     (fresh_world 101 (W_EXITCODE 42 0)) = ''OK pid=100 child=101 child_exit=42'' @ [newline] \<and>
   field ''exit'' ''OK pid=100 child=101 child_exit=42'' \<noteq> Some ''0''"
proof -
  have h: "fst (posix_fork (fresh_world 101 (W_EXITCODE 42 0))) = 101"
    "fst (posix_waitpid 101 0 (fresh_world 101 (W_EXITCODE 42 0))) = (101, W_EXITCODE 42 0)"
    "WIFEXITED Glibc (W_EXITCODE 42 0) \<noteq> 0"
    by (simp_all only: posix_fork_fresh posix_waitpid_fresh exit_code_42 fst_conv simp_thms)
  have s: "(0::int) < sint (101 :: cint)" by simp
  have f: "os_fork posix (fresh_world 101 (W_EXITCODE 42 0))
             = (101, fresh_world 101 (W_EXITCODE 42 0))"
    by (simp add: posix_fork_fresh)
  have w: "os_waitpid posix 101 0 (fresh_world 101 (W_EXITCODE 42 0))
             = ((101, W_EXITCODE 42 0), fresh_world 101 (W_EXITCODE 42 0))"
    by (simp add: posix_waitpid_fresh)
  have g: "os_getpid posix (fresh_world 101 (W_EXITCODE 42 0))
             = (100, fresh_world 101 (W_EXITCODE 42 0))"
    by (simp add: posix_getpid_fresh)
  have "printed posix Glibc [''posix-test-helper'', ''fork-exit'', ''42'']
     (fresh_world 101 (W_EXITCODE 42 0)) =
     ''OK pid='' @ fmt_d 100 @ '' child='' @ fmt_d 101 @ '' child_exit='' @
       fmt_d (if WIFEXITED Glibc (W_EXITCODE 42 0) \<noteq> 0
              then WEXITSTATUS Glibc (W_EXITCODE 42 0) else - 1) @ [newline]"
    by (rule fork_exit_parent(2) [OF f s w g])
  moreover have "(if WIFEXITED Glibc (W_EXITCODE 42 0) \<noteq> 0
              then WEXITSTATUS Glibc (W_EXITCODE 42 0) else - 1) = 42"
    by (simp only: exit_code_42 simp_thms if_True)
  moreover have "field ''exit'' ''OK pid=100 child=101 child_exit=42'' = None"
    by (simp add: field_def line_fields_def key_value_def)
  ultimately have "printed posix Glibc [''posix-test-helper'', ''fork-exit'', ''42'']
     (fresh_world 101 (W_EXITCODE 42 0)) = ''OK pid=100 child=101 child_exit=42'' @ [newline] \<and>
   field ''exit'' ''OK pid=100 child=101 child_exit=42'' \<noteq> Some ''0''"
    by (simp only: fmt_d_100 fmt_d_42) simp
  with h show ?thesis by (intro conjI) simp_all
qed

text \<open>
  C4. For \<^verbatim>\<open>become-group-leader\<close> and \<^verbatim>\<open>setpgid-explicit\<close>, with any behaviour of
  the system calls: when \<^verbatim>\<open>setpgid\<close> returns nonzero the helper prints one \<open>ERR\<close> line
  whose \<open>errno\<close> field is \<^verbatim>\<open>errno\<close> and exits 1; when it returns 0 and the
  process-group id queried next equals the pid, the helper prints one \<open>OK\<close> line and
  exits 0; when it returns 0 and the query disagrees, the helper prints one \<open>ERR\<close> line
  with both values and exits 1. Under the process-group rules of the specification,
  after a \<^verbatim>\<open>setpgid(0, 0)\<close> or \<^verbatim>\<open>setpgid(pid, pid)\<close> that succeeds the process-group
  id queried is the pid, so that the helper prints \<open>OK\<close> and exits 0.
\<close>

theorem group_leader_commands:
  "(let s = os_setpgid os 0 0 k; pid = os_getpid os (snd s);
        pgid = os_getpgid os 0 (snd pid); argv = prog # ''become-group-leader'' # args
    in (fst s \<noteq> 0 \<longrightarrow>
          exits os l argv k 1 \<and>
          err_report (printed os l argv k) (os_errno os (snd s)) \<and>
          printed os l argv k =
            ''ERR errno='' @ fmt_d (os_errno os (snd s)) @ '' msg=setpgid_failed''
              @ [newline]) \<and>
       (fst s = 0 \<and> fst pgid = fst pid \<longrightarrow>
          exits os l argv k 0 \<and> ok_report (printed os l argv k) 0) \<and>
       (fst s = 0 \<and> fst pgid \<noteq> fst pid \<longrightarrow>
          exits os l argv k 1 \<and>
          err_report (printed os l argv k) 0 \<and>
          printed os l argv k =
            ''ERR errno=0 msg=not_group_leader pid='' @ fmt_d (fst pid) @ '' pgid=''
              @ fmt_d (fst pgid) @ [newline])) \<and>
   (let pid = os_getpid os k; s = os_setpgid os (fst pid) (fst pid) (snd pid);
        pgid = os_getpgid os (fst pid) (snd s); argv = prog # ''setpgid-explicit'' # args
    in (fst s \<noteq> 0 \<longrightarrow>
          exits os l argv k 1 \<and>
          err_report (printed os l argv k) (os_errno os (snd s)) \<and>
          printed os l argv k =
            ''ERR errno='' @ fmt_d (os_errno os (snd s)) @ '' msg=setpgid_explicit_failed''
              @ [newline]) \<and>
       (fst s = 0 \<and> fst pgid = fst pid \<longrightarrow>
          exits os l argv k 0 \<and> ok_report (printed os l argv k) 0) \<and>
       (fst s = 0 \<and> fst pgid \<noteq> fst pid \<longrightarrow>
          exits os l argv k 1 \<and>
          err_report (printed os l argv k) 0 \<and>
          printed os l argv k =
            ''ERR errno=0 msg=pgid_not_set pid='' @ fmt_d (fst pid) @ '' pgid=''
              @ fmt_d (fst pgid) @ [newline])) \<and>
   (fst (posix_setpgid 0 0 w) = 0 \<longrightarrow>
      fst (posix_getpgid 0 (snd (posix_setpgid 0 0 w))) = w_pid w \<and>
      exits posix l (prog # ''become-group-leader'' # args) w 0 \<and>
      ok_report (printed posix l (prog # ''become-group-leader'' # args) w) 0) \<and>
   (fst (posix_setpgid (w_pid w) (w_pid w) w) = 0 \<longrightarrow>
      fst (posix_getpgid (w_pid w) (snd (posix_setpgid (w_pid w) (w_pid w) w))) = w_pid w \<and>
      exits posix l (prog # ''setpgid-explicit'' # args) w 0 \<and>
      ok_report (printed posix l (prog # ''setpgid-explicit'' # args) w) 0)"
proof -
  have g: "snd (posix_getpid v) = v" "fst (posix_getpid v) = w_pid v" for v
    by (simp_all add: posix_getpid_def)
  have p1: "fst (posix_setpgid 0 0 w) = 0 \<longrightarrow>
      fst (posix_getpgid 0 (snd (posix_setpgid 0 0 w))) = w_pid w \<and>
      exits posix l (prog # ''become-group-leader'' # args) w 0 \<and>
      ok_report (printed posix l (prog # ''become-group-leader'' # args) w) 0"
    using posix_setpgid_self [of w] become_group_leader_verified [of posix w l prog args]
    by (simp add: g)
  have p2: "fst (posix_setpgid (w_pid w) (w_pid w) w) = 0 \<longrightarrow>
      fst (posix_getpgid (w_pid w) (snd (posix_setpgid (w_pid w) (w_pid w) w))) = w_pid w \<and>
      exits posix l (prog # ''setpgid-explicit'' # args) w 0 \<and>
      ok_report (printed posix l (prog # ''setpgid-explicit'' # args) w) 0"
    using posix_setpgid_pid [of w] setpgid_explicit_verified [of posix w l prog args]
    by (simp add: g)
  have b: "(let s = os_setpgid os 0 0 k; pid = os_getpid os (snd s);
        pgid = os_getpgid os 0 (snd pid); argv = prog # ''become-group-leader'' # args
    in (fst s \<noteq> 0 \<longrightarrow>
          exits os l argv k 1 \<and>
          err_report (printed os l argv k) (os_errno os (snd s)) \<and>
          printed os l argv k =
            ''ERR errno='' @ fmt_d (os_errno os (snd s)) @ '' msg=setpgid_failed''
              @ [newline]) \<and>
       (fst s = 0 \<and> fst pgid = fst pid \<longrightarrow>
          exits os l argv k 0 \<and> ok_report (printed os l argv k) 0) \<and>
       (fst s = 0 \<and> fst pgid \<noteq> fst pid \<longrightarrow>
          exits os l argv k 1 \<and>
          err_report (printed os l argv k) 0 \<and>
          printed os l argv k =
            ''ERR errno=0 msg=not_group_leader pid='' @ fmt_d (fst pid) @ '' pgid=''
              @ fmt_d (fst pgid) @ [newline]))"
    unfolding Let_def exits_small
    using become_group_leader_fails [of os k l prog args]
      become_group_leader_verified [of os k l prog args]
      become_group_leader_disagrees [of os k l prog args]
    by blast
  have e: "(let pid = os_getpid os k; s = os_setpgid os (fst pid) (fst pid) (snd pid);
        pgid = os_getpgid os (fst pid) (snd s); argv = prog # ''setpgid-explicit'' # args
    in (fst s \<noteq> 0 \<longrightarrow>
          exits os l argv k 1 \<and>
          err_report (printed os l argv k) (os_errno os (snd s)) \<and>
          printed os l argv k =
            ''ERR errno='' @ fmt_d (os_errno os (snd s)) @ '' msg=setpgid_explicit_failed''
              @ [newline]) \<and>
       (fst s = 0 \<and> fst pgid = fst pid \<longrightarrow>
          exits os l argv k 0 \<and> ok_report (printed os l argv k) 0) \<and>
       (fst s = 0 \<and> fst pgid \<noteq> fst pid \<longrightarrow>
          exits os l argv k 1 \<and>
          err_report (printed os l argv k) 0 \<and>
          printed os l argv k =
            ''ERR errno=0 msg=pgid_not_set pid='' @ fmt_d (fst pid) @ '' pgid=''
              @ fmt_d (fst pgid) @ [newline]))"
    unfolding Let_def exits_small
    using setpgid_explicit_fails [of os k l prog args]
      setpgid_explicit_verified [of os k l prog args]
      setpgid_explicit_disagrees [of os k l prog args]
    by blast
  from b e p1 p2 show ?thesis by (intro conjI)
qed

theorem group_leader_commands_witness:
  "fst (posix_setpgid 0 0 (fresh_world 0 0)) = 0 \<and>
   fst (posix_getpgid 0 (snd (posix_setpgid 0 0 (fresh_world 0 0)))) = 100 \<and>
   exits posix Glibc [''posix-test-helper'', ''become-group-leader''] (fresh_world 0 0) 0 \<and>
   fst (posix_setpgid 100 100 (fresh_world 0 0)) = 0 \<and>
   fst (posix_getpgid 100 (snd (posix_setpgid 100 100 (fresh_world 0 0)))) = 100 \<and>
   exits posix Glibc [''posix-test-helper'', ''setpgid-explicit''] (fresh_world 0 0) 0 \<and>
   exits posix Glibc [''posix-test-helper'', ''setpgid-explicit'']
     ((fresh_world 0 0)\<lparr>w_sid := 100\<rparr>) 1"
proof -
  have h: "fst (posix_setpgid 0 0 (fresh_world 0 0)) = 0"
    "fst (posix_setpgid 100 100 (fresh_world 0 0)) = 0"
    by (simp_all add: posix_setpgid_def)
  have n: "fst (posix_setpgid (fst (posix_getpid ((fresh_world 0 0)\<lparr>w_sid := 100\<rparr>)))
             (fst (posix_getpid ((fresh_world 0 0)\<lparr>w_sid := 100\<rparr>)))
             (snd (posix_getpid ((fresh_world 0 0)\<lparr>w_sid := 100\<rparr>)))) \<noteq> 0"
    by (simp add: posix_setpgid_def posix_getpid_def)
  show ?thesis
    using h n group_leader_commands [where w = "fresh_world 0 0" and l = Glibc
        and prog = "''posix-test-helper''" and args = "[]" and os = posix
        and k = "(fresh_world 0 0)\<lparr>w_sid := 100\<rparr>"]
    by (simp add: Let_def)
qed

lemma verify_parent_run:
  "(let argv = prog # ''verify-parent'' # ppid # rest;
        actual = fst (os_getppid os k)
    in (exits os l argv k 0 \<longleftrightarrow> actual = atoi ppid) \<and>
       (ok_report (printed os l argv k) 0 \<longleftrightarrow> actual = atoi ppid) \<and>
       (actual \<noteq> atoi ppid \<longrightarrow>
          exits os l argv k 1 \<and>
          printed os l argv k =
            ''ERR errno=0 msg=ppid_mismatch expected='' @ fmt_d (atoi ppid) @ '' actual=''
              @ fmt_d actual @ [newline] \<and>
          one_protocol_line (printed os l argv k) \<and>
          field ''expected'' (butlast (printed os l argv k)) = Some (fmt_d (atoi ppid)) \<and>
          field ''actual'' (butlast (printed os l argv k)) = Some (fmt_d actual)))"
proof (cases "fst (os_getppid os k) = atoi ppid")
  case True
  then show ?thesis
    using verify_parent_match [of os k ppid l prog rest] by (simp add: Let_def)
next
  case False
  have "\<not> ok_report (''ERR errno=0 msg=ppid_mismatch expected='' @ fmt_d (atoi ppid)
      @ '' actual='' @ fmt_d (fst (os_getppid os k)) @ [newline]) 0"
    by (simp add: ok_report_def)
  with False show ?thesis
    using verify_parent_mismatch [of os k ppid l prog rest]
      mismatch_line [of "atoi ppid" "fst (os_getppid os k)"]
    by (simp add: Let_def butlast_append)
qed


text \<open>
  C5. For \<^verbatim>\<open>verify-parent <ppid>\<close> with the argument present: the helper exits 0, and
  prints one \<open>OK\<close> line, if and only if the pid that \<^verbatim>\<open>getppid\<close> returns equals the
  numeric value of \<^verbatim>\<open><ppid>\<close>; on a mismatch it exits 1 after printing one \<open>ERR\<close> line
  whose \<open>expected\<close> and \<open>actual\<close> fields are the two pids.
\<close>

theorem verify_parent:
  "(let argv = prog # ''verify-parent'' # ppid # rest;
        actual = fst (os_getppid os k)
    in (exits os l argv k 0 \<longleftrightarrow> actual = atoi ppid) \<and>
       (ok_report (printed os l argv k) 0 \<longleftrightarrow> actual = atoi ppid) \<and>
       (actual \<noteq> atoi ppid \<longrightarrow>
          exits os l argv k 1 \<and>
          printed os l argv k =
            ''ERR errno=0 msg=ppid_mismatch expected='' @ fmt_d (atoi ppid) @ '' actual=''
              @ fmt_d actual @ [newline] \<and>
          one_protocol_line (printed os l argv k) \<and>
          field ''expected'' (butlast (printed os l argv k)) = Some (fmt_d (atoi ppid)) \<and>
          field ''actual'' (butlast (printed os l argv k)) = Some (fmt_d actual))) \<and>
   (exits os l (prog # ''verify-parent'' # fmt_d v # rest) k 0
      \<longleftrightarrow> fst (os_getppid os k) = v)"
proof -
  have "exits os l (prog # ''verify-parent'' # fmt_d v # rest) k 0
      \<longleftrightarrow> fst (os_getppid os k) = v"
    using verify_parent_run [of prog "fmt_d v" rest os k l]
    by (simp only: Let_def atoi_fmt_d)
  with verify_parent_run [of prog ppid rest os k l] show ?thesis ..
qed

theorem verify_parent_witness:
  "exits posix Glibc [''posix-test-helper'', ''verify-parent'', ''50''] (fresh_world 0 0) 0
   \<and> exits posix Glibc [''posix-test-helper'', ''verify-parent'', ''51''] (fresh_world 0 0) 1
   \<and> printed posix Glibc [''posix-test-helper'', ''verify-parent'', ''51''] (fresh_world 0 0)
       = ''ERR errno=0 msg=ppid_mismatch expected=51 actual=50'' @ [newline]"
proof -
  have v: "fst (posix_getppid (fresh_world 0 0)) = 50"
    by (simp add: posix_getppid_def fresh_world_def)
  have f: "fmt_d 50 = ''50''" "fmt_d 51 = ''51''" by code_simp+
  show ?thesis
    using verify_parent [where os = posix and l = Glibc and prog = "''posix-test-helper''"
          and ppid = "''50''" and rest = "[]" and k = "fresh_world 0 0"]
      verify_parent [where os = posix and l = Glibc and prog = "''posix-test-helper''"
          and ppid = "''51''" and rest = "[]" and k = "fresh_world 0 0"]
    by (simp add: Let_def v atoi_50 atoi_51 f)
qed

text \<open>
  C7, as the code has it. For \<^verbatim>\<open>exit <code>\<close>: the helper prints exactly one line, an
  \<open>OK\<close> line whose \<open>exit\<close> field is the numeric value of \<^verbatim>\<open><code>\<close>, and \<^verbatim>\<open>main\<close>
  returns that value; the exit status of the process is the low 8 bits of that value,
  and equals the value exactly when the value is from 0 to 255. For the decimal form of
  any \<^verbatim>\<open>int\<close> \<open>v\<close> the \<open>exit\<close> field and the value returned are \<open>v\<close>.
\<close>

theorem exit_command:
  "returned os l (prog # ''exit'' # code # rest) k = atoi code \<and>
   ok_report (printed os l (prog # ''exit'' # code # rest) k) (atoi code) \<and>
   exit_status os l (prog # ''exit'' # code # rest) k = atoi code AND 0xff \<and>
   (exits os l (prog # ''exit'' # code # rest) k (atoi code)
      \<longleftrightarrow> 0 \<le> sint (atoi code) \<and> sint (atoi code) \<le> 255) \<and>
   returned os l (prog # ''exit'' # fmt_d v # rest) k = v \<and>
   ok_report (printed os l (prog # ''exit'' # fmt_d v # rest) k) v \<and>
   exit_status os l (prog # ''exit'' # fmt_d v # rest) k = v AND 0xff"
  using exit_run [of os l prog code rest k] exit_run [of os l prog "fmt_d v" rest k]
    and_ff_iff [of "atoi code"]
  by (simp add: exits_def exit_status_def atoi_fmt_d)

theorem exit_command_witness:
  "exits posix Glibc [''posix-test-helper'', ''exit'', ''42''] (fresh_world 0 0) 42 \<and>
   ok_report (printed posix Glibc [''posix-test-helper'', ''exit'', ''42''] (fresh_world 0 0)) 42 \<and>
   \<not> exits posix Glibc [''posix-test-helper'', ''exit'', ''256''] (fresh_world 0 0) 256"
  using exit_command [where os = posix and l = Glibc and prog = "''posix-test-helper''"
      and code = "''42''" and rest = "[]" and k = "fresh_world 0 0"]
    exit_command [where os = posix and l = Glibc and prog = "''posix-test-helper''"
      and code = "''256''" and rest = "[]" and k = "fresh_world 0 0"]
  by (simp add: atoi_42 atoi_256)

text \<open>
  C7, as stated, makes the exit status of the process equal to the numeric value of
  \<^verbatim>\<open><code>\<close> for every \<^verbatim>\<open><code>\<close>. For \<^verbatim>\<open>exit 256\<close> the helper prints \<open>exit=256\<close>
  and returns 256 from \<^verbatim>\<open>main\<close>, and the exit status of the process is 0.
\<close>

theorem exit_256_counterexample:
  "atoi ''256'' = 256 \<and>
   field ''exit'' (butlast (printed posix Glibc [''posix-test-helper'', ''exit'', ''256'']
     (fresh_world 0 0))) = Some ''256'' \<and>
   returned posix Glibc [''posix-test-helper'', ''exit'', ''256''] (fresh_world 0 0) = 256 \<and>
   exit_status posix Glibc [''posix-test-helper'', ''exit'', ''256''] (fresh_world 0 0) = 0"
  using exit_run [of posix Glibc "''posix-test-helper''" "''256''" "[]" "fresh_world 0 0"]
  by (simp add: atoi_256 fmt_d_256 ok_report_def exit_status_def)

text \<open>
  C8, as the code has it. With a recognised command the helper prints exactly one line
  on standard output, an \<open>OK\<close> or an \<open>ERR\<close> line, and nothing on standard error, except
  for \<^verbatim>\<open>verify-parent\<close> without its argument (in a \<^verbatim>\<open>fork-exit\<close> run the line is the
  parent's: the forked child prints nothing). For \<^verbatim>\<open>verify-parent\<close> without its
  argument, for an unrecognised command and for a missing command, nothing is printed
  on standard output, the message goes to standard error, and the exit status is 1.
\<close>

theorem helper_lines:
  "(2 \<le> length argv \<and> argv ! 1 \<in> set commands
      \<and> \<not> (argv ! 1 = ''verify-parent'' \<and> length argv = 2)
      \<and> \<not> (argv ! 1 = ''fork-exit'' \<and> fst (os_fork os k) = 0) \<longrightarrow>
      one_protocol_line (printed os l argv k) \<and> complaints os l argv k = []) \<and>
   (2 \<le> length argv \<and> argv ! 1 = ''fork-exit'' \<and> fst (os_fork os k) = 0 \<longrightarrow>
      printed os l argv k = [] \<and> complaints os l argv k = []) \<and>
   (length argv = 2 \<and> argv ! 1 = ''verify-parent'' \<longrightarrow>
      printed os l argv k = [] \<and>
      complaints os l argv k = ''verify-parent requires <ppid> argument'' @ [newline] \<and>
      exits os l argv k 1) \<and>
   (2 \<le> length argv \<and> argv ! 1 \<notin> set commands \<longrightarrow>
      printed os l argv k = [] \<and>
      complaints os l argv k = ''Unknown command: '' @ argv ! 1 @ [newline] \<and>
      exits os l argv k 1) \<and>
   (length argv < 2 \<longrightarrow>
      printed os l argv k = [] \<and> complaints os l argv k = usage \<and>
      exits os l argv k 1)"
proof (intro conjI impI)
  assume a: "2 \<le> length argv \<and> argv ! 1 \<in> set commands
      \<and> \<not> (argv ! 1 = ''verify-parent'' \<and> length argv = 2)
      \<and> \<not> (argv ! 1 = ''fork-exit'' \<and> fst (os_fork os k) = 0)"
  then have len: "2 \<le> length argv" by simp
  from a have "argv ! 1 \<in> set commands" by simp
  then consider "argv ! 1 = ''exit''" | "argv ! 1 = ''stop-exit''"
    | "argv ! 1 = ''verify-parent''" | "argv ! 1 = ''create-session''"
    | "argv ! 1 = ''double-setsid''" | "argv ! 1 = ''become-group-leader''"
    | "argv ! 1 = ''setpgid-explicit''" | "argv ! 1 = ''fork-exit''"
    unfolding commands_def by (simp only: set_simps insert_iff empty_iff) blast
  then have both: "one_protocol_line (printed os l argv k) \<and> complaints os l argv k = []"
  proof cases
    case 1 with len show ?thesis by (rule line_exit)
  next
    case 2 with len show ?thesis by (rule line_stop_exit)
  next
    case 3
    with a len have "3 \<le> length argv" by auto
    then show ?thesis using 3 by (rule line_verify_parent)
  next
    case 4 with len show ?thesis by (rule line_create_session)
  next
    case 5 with len show ?thesis by (rule line_double_setsid)
  next
    case 6 with len show ?thesis by (rule line_become_group_leader)
  next
    case 7 with len show ?thesis by (rule line_setpgid_explicit)
  next
    case 8
    with a have "fst (os_fork os k) \<noteq> 0" by simp
    with len 8 show ?thesis by (rule line_fork_exit)
  qed
  from both show "one_protocol_line (printed os l argv k)" ..
  from both show "complaints os l argv k = []" ..
qed (simp_all add: silent_fork_child silent_no_command silent_unknown silent_verify_parent)

theorem helper_lines_witness:
  "one_protocol_line
     (printed posix Glibc [''posix-test-helper'', ''create-session''] (fresh_world 0 0)) \<and>
   printed posix Glibc [''posix-test-helper'', ''no-such-command''] (fresh_world 0 0) = [] \<and>
   complaints posix Glibc [''posix-test-helper'', ''no-such-command''] (fresh_world 0 0)
     = ''Unknown command: no-such-command'' @ [newline] \<and>
   exits posix Glibc [''posix-test-helper'', ''no-such-command''] (fresh_world 0 0) 1 \<and>
   printed posix Glibc [''posix-test-helper''] (fresh_world 0 0) = [] \<and>
   complaints posix Glibc [''posix-test-helper''] (fresh_world 0 0) = usage \<and>
   printed posix Glibc [''posix-test-helper'', ''fork-exit'']
     ((fresh_world 0 0)\<lparr>w_fork := Inr 0\<rparr>) = []"
proof -
  have c: "fst (os_fork posix ((fresh_world 0 0)\<lparr>w_fork := Inr 0\<rparr>)) = 0"
    by (simp add: posix_fork_def)
  show ?thesis
    using c
      helper_lines [where argv = "[''posix-test-helper'', ''create-session'']"
        and os = posix and l = Glibc and k = "fresh_world 0 0"]
      helper_lines [where argv = "[''posix-test-helper'', ''no-such-command'']"
        and os = posix and l = Glibc and k = "fresh_world 0 0"]
      helper_lines [where argv = "[''posix-test-helper'']"
        and os = posix and l = Glibc and k = "fresh_world 0 0"]
      helper_lines [where argv = "[''posix-test-helper'', ''fork-exit'']"
        and os = posix and l = Glibc and k = "(fresh_world 0 0)\<lparr>w_fork := Inr 0\<rparr>"]
    by (simp add: commands_def)
qed

text \<open>
  C8, as stated, promises one line on standard output for every recognised command.
  \<^verbatim>\<open>verify-parent\<close> is recognised, and without its argument the helper prints nothing
  on standard output.
\<close>

theorem verify_parent_no_line_counterexample:
  "''verify-parent'' \<in> set commands \<and>
   printed posix Glibc [''posix-test-helper'', ''verify-parent''] (fresh_world 0 0) = [] \<and>
   \<not> one_protocol_line
       (printed posix Glibc [''posix-test-helper'', ''verify-parent''] (fresh_world 0 0))"
  by (simp add: commands_def run_defs cmd_verify_parent_def one_protocol_line_def)

text \<open>
  C9. Without a \<^verbatim>\<open><code>\<close> argument, \<^verbatim>\<open>exit\<close>, \<^verbatim>\<open>stop-exit\<close> and \<^verbatim>\<open>fork-exit\<close>
  behave exactly as with the argument \<^verbatim>\<open>0\<close>, from any state of the process and with any
  behaviour of the system calls.
\<close>

theorem default_code:
  "main os l [prog, ''exit''] p = main os l [prog, ''exit'', ''0''] p \<and>
   main os l [prog, ''stop-exit''] p = main os l [prog, ''stop-exit'', ''0''] p \<and>
   main os l [prog, ''fork-exit''] p = main os l [prog, ''fork-exit'', ''0''] p"
  by (simp add: main_def cmd_exit_def cmd_stop_exit_def cmd_fork_exit_def code_arg_def atoi_0)

text \<open>
  C10. For \<^verbatim>\<open>fork-exit\<close>, whenever \<^verbatim>\<open>fork\<close> returned the child's pid and \<^verbatim>\<open>waitpid\<close>
  returns that pid, the helper exits with status 0 whatever the status word is; when
  the status does not satisfy \<^verbatim>\<open>WIFEXITED\<close>, the line printed reports
  \<open>child_exit=-1\<close>.
\<close>

theorem fork_exit_abnormal_child:
  assumes "os_fork os k = (child, ka)" and "0 < sint child"
    and "os_waitpid os child 0 ka = ((child, status), kb)"
    and "os_getpid os kb = (pid, kc)"
  shows "exits os l (prog # ''fork-exit'' # args) k 0 \<and>
         (WIFEXITED l status = 0 \<longrightarrow>
            printed os l (prog # ''fork-exit'' # args) k =
              ''OK pid='' @ fmt_d pid @ '' child='' @ fmt_d child @ '' child_exit=-1''
                @ [newline])"
  using fork_exit_parent [OF assms, of l prog args]
  by (simp add: fmt_d_minus_1)

theorem fork_exit_abnormal_child_witness:
  "exits posix Glibc [''posix-test-helper'', ''fork-exit'', ''42''] (fresh_world 101 9) 0 \<and>
   WIFEXITED Glibc 9 = 0 \<and>
   printed posix Glibc [''posix-test-helper'', ''fork-exit'', ''42''] (fresh_world 101 9)
     = ''OK pid=100 child=101 child_exit=-1'' @ [newline]"
proof -
  have s: "(0::int) < sint (101 :: cint)" by simp
  have f: "os_fork posix (fresh_world 101 9) = (101, fresh_world 101 9)"
    by (simp add: posix_fork_fresh)
  have w: "os_waitpid posix 101 0 (fresh_world 101 9) = ((101, 9), fresh_world 101 9)"
    by (simp add: posix_waitpid_fresh)
  have g: "os_getpid posix (fresh_world 101 9) = (100, fresh_world 101 9)"
    by (simp add: posix_getpid_fresh)
  show ?thesis
    using fork_exit_abnormal_child [OF f s w g, of Glibc "''posix-test-helper''" "[''42'']"]
    by (simp add: killed_9 fmt_d_100)
qed

end
